theory Spec2Isabelle
  imports Complex_Main
begin

section \<open>Python exceptions and results\<close>

text \<open>
  Every \<^verbatim>\<open>raise\<close>, failed \<^verbatim>\<open>assert\<close>, out-of-range index and division by zero of
  the source is a value of \<open>error\<close>; a computation that may raise returns \<open>error + 'a\<close>
  with \<open>Inl\<close> for the exception.
\<close>

datatype error =
    RuntimeError string
  | KeyError string
  | AssertionError
  | IndexError
  | ZeroDivisionError
  | AttributeError string
  | ValueError

definition rbind :: "error + 'a \<Rightarrow> ('a \<Rightarrow> error + 'b) \<Rightarrow> error + 'b" where
  "rbind r f = (case r of Inl e \<Rightarrow> Inl e | Inr v \<Rightarrow> f v)"

text \<open>\<^verbatim>\<open>xs[i]\<close> for a non-negative literal index \<open>i\<close>: IndexError out of range.\<close>

definition py_index :: "'a list \<Rightarrow> nat \<Rightarrow> error + 'a" where
  "py_index xs i = (if i < length xs then Inr (xs ! i) else Inl IndexError)"

text \<open>\<^verbatim>\<open>a // b\<close> on non-negative integers: ZeroDivisionError for \<open>b = 0\<close>.\<close>

definition py_floordiv :: "nat \<Rightarrow> nat \<Rightarrow> error + nat" where
  "py_floordiv a b = (if b = 0 then Inl ZeroDivisionError else Inr (a div b))"

section \<open>The tensor substrate\<close>

text \<open>
  The leaf modules of \<^verbatim>\<open>torch.nn\<close> that the source instantiates, each with the
  constructor arguments the source passes:
  \<^item> \<open>Conv2d in_channels out_channels kernel_size stride padding bias groups\<close>
  \<^item> \<open>BatchNorm2d num_features\<close>, \<open>BatchNorm1d num_features\<close>
  \<^item> \<open>InstanceNorm2d num_features affine\<close>
  \<^item> \<open>LayerNorm normalized_shape\<close>
  \<^item> \<open>Linear in_features out_features\<close>
  \<^item> \<open>ReLU inplace\<close>, \<open>Sigmoid\<close>
  \<^item> \<open>MaxPool2d kernel_size stride padding\<close>, \<open>AvgPool2d kernel_size stride\<close>,
    \<open>AdaptiveAvgPool2d output_size\<close>
\<close>

datatype layer =
    Conv2d nat nat nat nat nat bool nat
  | BatchNorm2d nat
  | BatchNorm1d nat
  | InstanceNorm2d nat bool
  | LayerNorm "nat list"
  | Linear nat nat
  | ReLU bool
  | Sigmoid
  | MaxPool2d nat nat nat
  | AvgPool2d nat nat
  | AdaptiveAvgPool2d nat

text \<open>
  The source is written against PyTorch; its tensor operations are a parameter of the
  model. A substrate over a tensor type \<open>'t\<close> gives
  \<^item> \<open>nn_call name l x\<close>: the call \<^verbatim>\<open>m(x)\<close> of the leaf module \<open>m\<close> built as \<open>l\<close> and
    registered under the dotted attribute path \<open>name\<close>. The path is the key prefix of the
    module's entries in the model's \<^verbatim>\<open>state_dict\<close>, so the substrate holds the parameters,
    buffers and train/eval flag of every leaf: two calls with the same path use the same
    parameters, two calls with different paths use independent ones;
  \<^item> \<open>torch_add\<close>, \<open>torch_mul\<close>: \<^verbatim>\<open>a + b\<close> and \<^verbatim>\<open>a * b\<close> on tensors;
  \<^item> \<open>F_relu\<close>: \<^verbatim>\<open>F.relu(x)\<close>; \<open>F_normalize\<close>: \<^verbatim>\<open>F.normalize(x, p=2, dim=1)\<close>;
  \<^item> \<open>view_flat\<close>: \<^verbatim>\<open>v.view(v.size(0), -1)\<close>; \<open>torch_cat\<close>: \<^verbatim>\<open>torch.cat(vs, dim=1)\<close>.
  An exception raised inside a tensor operation (a shape mismatch) is a value of the
  substrate's tensor type, as in the shape substrate below.
\<close>

record 't torch =
  nn_call :: "string \<Rightarrow> layer \<Rightarrow> 't \<Rightarrow> 't"
  torch_add :: "'t \<Rightarrow> 't \<Rightarrow> 't"
  torch_mul :: "'t \<Rightarrow> 't \<Rightarrow> 't"
  F_relu :: "'t \<Rightarrow> 't"
  F_normalize :: "'t \<Rightarrow> 't"
  view_flat :: "'t \<Rightarrow> 't"
  torch_cat :: "'t list \<Rightarrow> 't"

text \<open>
  The constructor call \<^verbatim>\<open>nn.Conv2d(in_channels, out_channels, kernel_size, stride=...,
  padding=..., bias=..., groups=...)\<close>. PyTorch's constructor checks its arguments before it
  builds the module: it raises ValueError when \<^verbatim>\<open>groups\<close> is not positive, when
  \<^verbatim>\<open>in_channels\<close> is not divisible by \<^verbatim>\<open>groups\<close>, and when \<^verbatim>\<open>out_channels\<close> is not
  divisible by \<^verbatim>\<open>groups\<close>. A channel count of zero is accepted. The other leaf modules
  are built from natural numbers without a check that can fail.
\<close>

definition nn_Conv2d ::
  "nat \<Rightarrow> nat \<Rightarrow> nat \<Rightarrow> nat \<Rightarrow> nat \<Rightarrow> bool \<Rightarrow> nat \<Rightarrow> error + layer" where
  "nn_Conv2d in_channels out_channels kernel_size stride padding bias groups =
     (if groups = 0 then Inl ValueError
      else if in_channels mod groups \<noteq> 0 then Inl ValueError
      else if out_channels mod groups \<noteq> 0 then Inl ValueError
      else Inr (Conv2d in_channels out_channels kernel_size stride padding bias groups))"

section \<open>Basic layers (pfh\_osnet.py, lines 26--145)\<close>

text \<open>
  Each \<^verbatim>\<open>__init__\<close> runs its statements in the source's order and stops at the first one
  that raises.
\<close>

record ConvLayer =
  ConvLayer_conv :: layer
  ConvLayer_bn :: layer
  ConvLayer_relu :: layer

definition ConvLayer_init ::
  "nat \<Rightarrow> nat \<Rightarrow> nat \<Rightarrow> nat \<Rightarrow> nat \<Rightarrow> nat \<Rightarrow> bool \<Rightarrow> error + ConvLayer" where
  "ConvLayer_init in_channels out_channels kernel_size stride padding groups IN =
     rbind (nn_Conv2d in_channels out_channels kernel_size stride padding False groups) (\<lambda>conv.
       Inr \<lparr>ConvLayer_conv = conv,
            ConvLayer_bn =
              (if IN then InstanceNorm2d out_channels True else BatchNorm2d out_channels),
            ConvLayer_relu = ReLU True\<rparr>)"

definition ConvLayer_forward :: "'t torch \<Rightarrow> string \<Rightarrow> ConvLayer \<Rightarrow> 't \<Rightarrow> 't" where
  "ConvLayer_forward T p m x =
     (let x = nn_call T (p @ ''conv'') (ConvLayer_conv m) x;
          x = nn_call T (p @ ''bn'') (ConvLayer_bn m) x;
          x = nn_call T (p @ ''relu'') (ConvLayer_relu m) x
      in x)"

record Conv1x1 =
  Conv1x1_conv :: layer
  Conv1x1_bn :: layer
  Conv1x1_relu :: layer

definition Conv1x1_init :: "nat \<Rightarrow> nat \<Rightarrow> nat \<Rightarrow> nat \<Rightarrow> error + Conv1x1" where
  "Conv1x1_init in_channels out_channels stride groups =
     rbind (nn_Conv2d in_channels out_channels 1 stride 0 False groups) (\<lambda>conv.
       Inr \<lparr>Conv1x1_conv = conv,
            Conv1x1_bn = BatchNorm2d out_channels,
            Conv1x1_relu = ReLU True\<rparr>)"

definition Conv1x1_forward :: "'t torch \<Rightarrow> string \<Rightarrow> Conv1x1 \<Rightarrow> 't \<Rightarrow> 't" where
  "Conv1x1_forward T p m x =
     (let x = nn_call T (p @ ''conv'') (Conv1x1_conv m) x;
          x = nn_call T (p @ ''bn'') (Conv1x1_bn m) x;
          x = nn_call T (p @ ''relu'') (Conv1x1_relu m) x
      in x)"

record Conv1x1Linear =
  Conv1x1Linear_conv :: layer
  Conv1x1Linear_bn :: layer

definition Conv1x1Linear_init :: "nat \<Rightarrow> nat \<Rightarrow> nat \<Rightarrow> error + Conv1x1Linear" where
  "Conv1x1Linear_init in_channels out_channels stride =
     rbind (nn_Conv2d in_channels out_channels 1 stride 0 False 1) (\<lambda>conv.
       Inr \<lparr>Conv1x1Linear_conv = conv,
            Conv1x1Linear_bn = BatchNorm2d out_channels\<rparr>)"

definition Conv1x1Linear_forward :: "'t torch \<Rightarrow> string \<Rightarrow> Conv1x1Linear \<Rightarrow> 't \<Rightarrow> 't" where
  "Conv1x1Linear_forward T p m x =
     (let x = nn_call T (p @ ''conv'') (Conv1x1Linear_conv m) x;
          x = nn_call T (p @ ''bn'') (Conv1x1Linear_bn m) x
      in x)"

record LightConv3x3 =
  LightConv3x3_conv1 :: layer
  LightConv3x3_conv2 :: layer
  LightConv3x3_bn :: layer
  LightConv3x3_relu :: layer

text \<open>
  \<^verbatim>\<open>LightConv3x3.__init__\<close>: \<^verbatim>\<open>conv2\<close> is depthwise, \<^verbatim>\<open>groups=out_channels\<close> (lines
  130--136), so \<^verbatim>\<open>LightConv3x3(c, 0)\<close> raises the ValueError of \<^verbatim>\<open>nn.Conv2d\<close>.
\<close>

definition LightConv3x3_init :: "nat \<Rightarrow> nat \<Rightarrow> error + LightConv3x3" where
  "LightConv3x3_init in_channels out_channels =
     rbind (nn_Conv2d in_channels out_channels 1 1 0 False 1) (\<lambda>conv1.
     rbind (nn_Conv2d out_channels out_channels 3 1 1 False out_channels) (\<lambda>conv2.
       Inr \<lparr>LightConv3x3_conv1 = conv1,
            LightConv3x3_conv2 = conv2,
            LightConv3x3_bn = BatchNorm2d out_channels,
            LightConv3x3_relu = ReLU True\<rparr>))"

definition LightConv3x3_forward :: "'t torch \<Rightarrow> string \<Rightarrow> LightConv3x3 \<Rightarrow> 't \<Rightarrow> 't" where
  "LightConv3x3_forward T p m x =
     (let x = nn_call T (p @ ''conv1'') (LightConv3x3_conv1 m) x;
          x = nn_call T (p @ ''conv2'') (LightConv3x3_conv2 m) x;
          x = nn_call T (p @ ''bn'') (LightConv3x3_bn m) x;
          x = nn_call T (p @ ''relu'') (LightConv3x3_relu m) x
      in x)"

text \<open>
  \<^verbatim>\<open>nn.Sequential(m0, m1, ...)\<close> of LightConv3x3 modules: the arguments are constructed
  from left to right, the first exception ends the call; the children are registered
  under the names \<^verbatim>\<open>0\<close>, \<^verbatim>\<open>1\<close>, ... and applied in order.
\<close>

fun Sequential_init :: "(error + 'a) list \<Rightarrow> error + 'a list" where
  "Sequential_init [] = Inr []"
| "Sequential_init (r # rs) =
     rbind r (\<lambda>m. rbind (Sequential_init rs) (\<lambda>ms. Inr (m # ms)))"

fun str_nat :: "nat \<Rightarrow> string" where
  "str_nat n =
     (if n < 10 then [char_of (48 + n)] else str_nat (n div 10) @ [char_of (48 + n mod 10)])"

fun Sequential_forward :: "'t torch \<Rightarrow> string \<Rightarrow> nat \<Rightarrow> LightConv3x3 list \<Rightarrow> 't \<Rightarrow> 't" where
  "Sequential_forward T p i [] x = x"
| "Sequential_forward T p i (m # ms) x =
     Sequential_forward T p (Suc i) ms (LightConv3x3_forward T (p @ str_nat i @ ''.'') m x)"

section \<open>ChannelGate (pfh\_osnet.py, lines 151--201)\<close>

record ChannelGate =
  ChannelGate_return_gates :: bool
  ChannelGate_global_avgpool :: layer
  ChannelGate_fc1 :: layer
  ChannelGate_norm1 :: "layer option"
  ChannelGate_relu :: layer
  ChannelGate_fc2 :: layer
  ChannelGate_gate_activation :: "layer option"

text \<open>
  \<^verbatim>\<open>ChannelGate.__init__(in_channels, num_gates, return_gates, gate_activation, reduction,
  layer_norm)\<close>. The statements run in the source's order: \<^verbatim>\<open>in_channels // reduction\<close> is
  evaluated when \<^verbatim>\<open>fc1\<close> is built (line 166), before the activation string is looked at
  (lines 179--187). \<^verbatim>\<open>fc1\<close> and \<^verbatim>\<open>fc2\<close> are built with the default \<^verbatim>\<open>groups=1\<close>.
\<close>

definition ChannelGate_init ::
  "nat \<Rightarrow> nat option \<Rightarrow> bool \<Rightarrow> string \<Rightarrow> nat \<Rightarrow> bool \<Rightarrow> error + ChannelGate" where
  "ChannelGate_init in_channels num_gates return_gates gate_activation reduction layer_norm =
     (let num_gates = (case num_gates of None \<Rightarrow> in_channels | Some n \<Rightarrow> n) in
      rbind (py_floordiv in_channels reduction) (\<lambda>hidden.
      rbind (nn_Conv2d in_channels hidden 1 1 0 True 1) (\<lambda>fc1.
      rbind (nn_Conv2d hidden num_gates 1 1 0 True 1) (\<lambda>fc2.
        let g = \<lparr>ChannelGate_return_gates = return_gates,
                 ChannelGate_global_avgpool = AdaptiveAvgPool2d 1,
                 ChannelGate_fc1 = fc1,
                 ChannelGate_norm1 = (if layer_norm then Some (LayerNorm [hidden, 1, 1]) else None),
                 ChannelGate_relu = ReLU True,
                 ChannelGate_fc2 = fc2,
                 ChannelGate_gate_activation = None\<rparr>
        in if gate_activation = ''sigmoid'' then
             Inr (g\<lparr>ChannelGate_gate_activation := Some Sigmoid\<rparr>)
           else if gate_activation = ''relu'' then
             Inr (g\<lparr>ChannelGate_gate_activation := Some (ReLU True)\<rparr>)
           else if gate_activation = ''linear'' then
             Inr (g\<lparr>ChannelGate_gate_activation := None\<rparr>)
           else Inl (RuntimeError (''Unknown gate activation: '' @ gate_activation))))))"

definition ChannelGate_forward :: "'t torch \<Rightarrow> string \<Rightarrow> ChannelGate \<Rightarrow> 't \<Rightarrow> 't" where
  "ChannelGate_forward T p g x =
     (let input = x;
          x = nn_call T (p @ ''global_avgpool'') (ChannelGate_global_avgpool g) x;
          x = nn_call T (p @ ''fc1'') (ChannelGate_fc1 g) x;
          x = (case ChannelGate_norm1 g of None \<Rightarrow> x | Some n \<Rightarrow> nn_call T (p @ ''norm1'') n x);
          x = nn_call T (p @ ''relu'') (ChannelGate_relu g) x;
          x = nn_call T (p @ ''fc2'') (ChannelGate_fc2 g) x;
          x = (case ChannelGate_gate_activation g of None \<Rightarrow> x
               | Some a \<Rightarrow> nn_call T (p @ ''gate_activation'') a x)
      in if ChannelGate_return_gates g then x else torch_mul T input x)"

section \<open>OSBlock (pfh\_osnet.py, lines 204--254)\<close>

record OSBlock =
  OSBlock_conv1 :: Conv1x1
  OSBlock_conv2a :: LightConv3x3
  OSBlock_conv2b :: "LightConv3x3 list"
  OSBlock_conv2c :: "LightConv3x3 list"
  OSBlock_conv2d :: "LightConv3x3 list"
  OSBlock_gate :: ChannelGate
  OSBlock_conv3 :: Conv1x1Linear
  OSBlock_downsample :: "Conv1x1Linear option"
  OSBlock_IN :: "layer option"

text \<open>
  \<^verbatim>\<open>OSBlock.__init__(in_channels, out_channels, IN, bottleneck_reduction)\<close>. Line 213 is
  \<^verbatim>\<open>mid_channels = out_channels // bottleneck_reduction\<close>; the block holds one ChannelGate
  (line 231). The sub-modules are constructed in the order of lines 214--238, and an
  exception of any of them ends the constructor: with \<^verbatim>\<open>mid_channels = 0\<close> the first
  \<^verbatim>\<open>LightConv3x3(0, 0)\<close> raises ValueError.
\<close>

definition OSBlock_init :: "nat \<Rightarrow> nat \<Rightarrow> bool \<Rightarrow> nat \<Rightarrow> error + OSBlock" where
  "OSBlock_init in_channels out_channels IN bottleneck_reduction =
     rbind (py_floordiv out_channels bottleneck_reduction) (\<lambda>mid_channels.
     rbind (Conv1x1_init in_channels mid_channels 1 1) (\<lambda>conv1.
     rbind (LightConv3x3_init mid_channels mid_channels) (\<lambda>conv2a.
     rbind (Sequential_init (replicate 2 (LightConv3x3_init mid_channels mid_channels))) (\<lambda>conv2b.
     rbind (Sequential_init (replicate 3 (LightConv3x3_init mid_channels mid_channels))) (\<lambda>conv2c.
     rbind (Sequential_init (replicate 4 (LightConv3x3_init mid_channels mid_channels))) (\<lambda>conv2d.
     rbind (ChannelGate_init mid_channels None False ''sigmoid'' 16 False) (\<lambda>gate.
     rbind (Conv1x1Linear_init mid_channels out_channels 1) (\<lambda>conv3.
     rbind (if in_channels \<noteq> out_channels
            then rbind (Conv1x1Linear_init in_channels out_channels 1) (\<lambda>d. Inr (Some d))
            else Inr None) (\<lambda>downsample.
       Inr \<lparr>OSBlock_conv1 = conv1,
            OSBlock_conv2a = conv2a,
            OSBlock_conv2b = conv2b,
            OSBlock_conv2c = conv2c,
            OSBlock_conv2d = conv2d,
            OSBlock_gate = gate,
            OSBlock_conv3 = conv3,
            OSBlock_downsample = downsample,
            OSBlock_IN = (if IN then Some (InstanceNorm2d out_channels True) else None)\<rparr>)))))))))"

text \<open>
  \<^verbatim>\<open>OSBlock.forward\<close>, lines 240--254. \<open>OSBlock_locals\<close> runs the body and returns its
  local variables as they stand at the \<^verbatim>\<open>return\<close>, in the order
  \<open>(x1, (x2a, x2b, x2c, x2d), x2, x3, identity, out0, out)\<close>, where \<open>out0\<close> is \<^verbatim>\<open>out\<close>
  as line 251 assigns it and \<open>out\<close> is \<^verbatim>\<open>out\<close> after lines 252--253;
  \<open>OSBlock_forward\<close> is the pair line 254 returns.
\<close>

definition OSBlock_locals ::
  "'t torch \<Rightarrow> string \<Rightarrow> OSBlock \<Rightarrow> 't
     \<Rightarrow> 't \<times> ('t \<times> 't \<times> 't \<times> 't) \<times> 't \<times> 't \<times> 't \<times> 't \<times> 't" where
  "OSBlock_locals T p b x =
     (let identity = x;
          x1 = Conv1x1_forward T (p @ ''conv1.'') (OSBlock_conv1 b) x;
          x2a = LightConv3x3_forward T (p @ ''conv2a.'') (OSBlock_conv2a b) x1;
          x2b = Sequential_forward T (p @ ''conv2b.'') 0 (OSBlock_conv2b b) x1;
          x2c = Sequential_forward T (p @ ''conv2c.'') 0 (OSBlock_conv2c b) x1;
          x2d = Sequential_forward T (p @ ''conv2d.'') 0 (OSBlock_conv2d b) x1;
          x2 = torch_add T (torch_add T (torch_add T
                 (ChannelGate_forward T (p @ ''gate.'') (OSBlock_gate b) x2a)
                 (ChannelGate_forward T (p @ ''gate.'') (OSBlock_gate b) x2b))
                 (ChannelGate_forward T (p @ ''gate.'') (OSBlock_gate b) x2c))
                 (ChannelGate_forward T (p @ ''gate.'') (OSBlock_gate b) x2d);
          x3 = Conv1x1Linear_forward T (p @ ''conv3.'') (OSBlock_conv3 b) x2;
          identity = (case OSBlock_downsample b of None \<Rightarrow> identity
                      | Some d \<Rightarrow> Conv1x1Linear_forward T (p @ ''downsample.'') d identity);
          out0 = torch_add T x3 identity;
          out = (case OSBlock_IN b of None \<Rightarrow> out0 | Some n \<Rightarrow> nn_call T (p @ ''IN'') n out0)
      in (x1, (x2a, x2b, x2c, x2d), x2, x3, identity, out0, out))"

definition OSBlock_forward :: "'t torch \<Rightarrow> string \<Rightarrow> OSBlock \<Rightarrow> 't \<Rightarrow> 't \<times> 't" where
  "OSBlock_forward T p b x =
     (case OSBlock_locals T p b x of (x1, x2s, x2, x3, identity, out0, out) \<Rightarrow> (F_relu T out, x2))"

text \<open>
  Names for two of the locals: the four branch outputs \<open>(x2a, x2b, x2c, x2d)\<close>, and the
  residual sum \<^verbatim>\<open>x3 + identity\<close> of line 251, before the instance normalisation.
\<close>

definition OSBlock_branches :: "'t torch \<Rightarrow> string \<Rightarrow> OSBlock \<Rightarrow> 't \<Rightarrow> 't \<times> 't \<times> 't \<times> 't" where
  "OSBlock_branches T p b x =
     (case OSBlock_locals T p b x of (x1, x2s, x2, x3, identity, out0, out) \<Rightarrow> x2s)"

definition OSBlock_residual_sum :: "'t torch \<Rightarrow> string \<Rightarrow> OSBlock \<Rightarrow> 't \<Rightarrow> 't" where
  "OSBlock_residual_sum T p b x =
     (case OSBlock_locals T p b x of (x1, x2s, x2, x3, identity, out0, out) \<Rightarrow> out0)"

text \<open>
  The fusion as the specification words it, for comparison with the source: branch \<open>k\<close>
  is gated by a ChannelGate of the common architecture \<open>g\<close> whose parameters are those
  registered under the \<open>k\<close>-th path, and the four gated results are added, left to right.
  Four different paths are four independent parameter sets; the same path four times is
  one gate applied four times.
\<close>

definition gated_sum ::
  "'t torch \<Rightarrow> string \<times> string \<times> string \<times> string \<Rightarrow> ChannelGate \<Rightarrow> 't \<times> 't \<times> 't \<times> 't \<Rightarrow> 't" where
  "gated_sum T paths g xs =
     (case (paths, xs) of ((pa, pb, pc, pd), (xa, xb, xc, xd)) \<Rightarrow>
        torch_add T (torch_add T (torch_add T
          (ChannelGate_forward T pa g xa)
          (ChannelGate_forward T pb g xb))
          (ChannelGate_forward T pc g xc))
          (ChannelGate_forward T pd g xd))"

text \<open>
  \<^verbatim>\<open>mid_channels\<close> is a local of \<^verbatim>\<open>__init__\<close>; on a constructed block it is read off
  as \<^verbatim>\<open>block.conv1.conv.out_channels\<close>.
\<close>

definition Conv2d_out_channels :: "layer \<Rightarrow> nat" where
  "Conv2d_out_channels l = (case l of Conv2d cin cout k s p b g \<Rightarrow> cout | _ \<Rightarrow> 0)"

definition OSBlock_mid_channels :: "OSBlock \<Rightarrow> nat" where
  "OSBlock_mid_channels b = Conv2d_out_channels (Conv1x1_conv (OSBlock_conv1 b))"

section \<open>OSNet (pfh\_osnet.py, lines 260--420)\<close>

record OSNet =
  OSNet_loss :: string
  OSNet_training :: bool
  OSNet_conv1 :: ConvLayer
  OSNet_maxpool :: layer
  OSNet_conv2_0 :: OSBlock
  OSNet_conv2_1 :: OSBlock
  OSNet_conv2_2 :: Conv1x1
  OSNet_conv2_3 :: layer
  OSNet_conv3_0 :: OSBlock
  OSNet_conv3_1 :: OSBlock
  OSNet_conv3_2 :: Conv1x1
  OSNet_conv3_3 :: layer
  OSNet_conv4_0 :: OSBlock
  OSNet_conv4_1 :: OSBlock
  OSNet_conv_a :: Conv1x1
  OSNet_conv_b :: Conv1x1
  OSNet_conv_c :: Conv1x1
  OSNet_conv5 :: Conv1x1
  OSNet_global_avgpool :: layer
  OSNet_classifier :: layer
  OSNet_classifier_a :: layer
  OSNet_classifier_b :: layer
  OSNet_classifier_c :: layer
  OSNet_bn :: layer
  OSNet_bn_a :: layer
  OSNet_bn_b :: layer
  OSNet_bn_c :: layer

text \<open>
  \<^verbatim>\<open>OSNet.__init__(num_classes, blocks, layers, channels, feature_dim, loss, IN)\<close>, lines
  270--310. Only the lengths of \<open>blocks\<close> and \<open>layers\<close> are read, so their element
  types are free. \<^verbatim>\<open>len(channels) - 1\<close> is an integer subtraction. A new
  \<^verbatim>\<open>nn.Module\<close> is in training mode. \<^verbatim>\<open>_init_params\<close> (line 310) writes parameter
  values only; they belong to the substrate.
\<close>

definition OSNet_init ::
  "nat \<Rightarrow> 'b list \<Rightarrow> 'l list \<Rightarrow> nat list \<Rightarrow> nat \<Rightarrow> string \<Rightarrow> bool \<Rightarrow> error + OSNet" where
  "OSNet_init num_classes blocks layers channels feature_dim loss IN =
     (let num_blocks = length blocks in
      if num_blocks \<noteq> length layers then Inl AssertionError
      else if int num_blocks \<noteq> int (length channels) - 1 then Inl AssertionError
      else
        rbind (py_index channels 0) (\<lambda>channels_0.
        rbind (ConvLayer_init 3 channels_0 7 2 3 1 IN) (\<lambda>conv1.
        rbind (OSBlock_init 64 256 IN 4) (\<lambda>conv2_0.
        rbind (OSBlock_init 256 256 IN 4) (\<lambda>conv2_1.
        rbind (Conv1x1_init 256 256 1 1) (\<lambda>conv2_2.
        rbind (OSBlock_init 256 384 IN 4) (\<lambda>conv3_0.
        rbind (OSBlock_init 384 384 IN 4) (\<lambda>conv3_1.
        rbind (Conv1x1_init 384 384 1 1) (\<lambda>conv3_2.
        rbind (OSBlock_init 384 512 IN 4) (\<lambda>conv4_0.
        rbind (OSBlock_init 512 512 IN 4) (\<lambda>conv4_1.
        rbind (Conv1x1_init 64 64 1 1) (\<lambda>conv_a.
        rbind (Conv1x1_init 96 96 1 1) (\<lambda>conv_b.
        rbind (Conv1x1_init 128 128 1 1) (\<lambda>conv_c.
        rbind (py_index channels 3) (\<lambda>channels_3.
        rbind (Conv1x1_init channels_3 channels_3 1 1) (\<lambda>conv5.
          Inr \<lparr>OSNet_loss = loss,
               OSNet_training = True,
               OSNet_conv1 = conv1,
               OSNet_maxpool = MaxPool2d 3 2 1,
               OSNet_conv2_0 = conv2_0,
               OSNet_conv2_1 = conv2_1,
               OSNet_conv2_2 = conv2_2,
               OSNet_conv2_3 = AvgPool2d 2 2,
               OSNet_conv3_0 = conv3_0,
               OSNet_conv3_1 = conv3_1,
               OSNet_conv3_2 = conv3_2,
               OSNet_conv3_3 = AvgPool2d 2 2,
               OSNet_conv4_0 = conv4_0,
               OSNet_conv4_1 = conv4_1,
               OSNet_conv_a = conv_a,
               OSNet_conv_b = conv_b,
               OSNet_conv_c = conv_c,
               OSNet_conv5 = conv5,
               OSNet_global_avgpool = AdaptiveAvgPool2d 1,
               OSNet_classifier = Linear 512 num_classes,
               OSNet_classifier_a = Linear 64 num_classes,
               OSNet_classifier_b = Linear 96 num_classes,
               OSNet_classifier_c = Linear 128 num_classes,
               OSNet_bn = BatchNorm1d 512,
               OSNet_bn_a = BatchNorm1d 64,
               OSNet_bn_b = BatchNorm1d 96,
               OSNet_bn_c = BatchNorm1d 128\<rparr>))))))))))))))))"

text \<open>\<^verbatim>\<open>OSNet.featuremaps\<close>, lines 355--378: returns \<open>(x, a1, b1, c1)\<close>.\<close>

definition OSNet_featuremaps :: "'t torch \<Rightarrow> OSNet \<Rightarrow> 't \<Rightarrow> 't \<times> 't \<times> 't \<times> 't" where
  "OSNet_featuremaps T net x =
     (let x = ConvLayer_forward T ''conv1.'' (OSNet_conv1 net) x;
          x = nn_call T ''maxpool'' (OSNet_maxpool net) x;
          x = fst (OSBlock_forward T ''conv2_0.'' (OSNet_conv2_0 net) x);
          (x, a1) = OSBlock_forward T ''conv2_1.'' (OSNet_conv2_1 net) x;
          x = Conv1x1_forward T ''conv2_2.'' (OSNet_conv2_2 net) x;
          x = nn_call T ''conv2_3'' (OSNet_conv2_3 net) x;
          x = fst (OSBlock_forward T ''conv3_0.'' (OSNet_conv3_0 net) x);
          (x, b1) = OSBlock_forward T ''conv3_1.'' (OSNet_conv3_1 net) x;
          x = Conv1x1_forward T ''conv3_2.'' (OSNet_conv3_2 net) x;
          x = nn_call T ''conv3_3'' (OSNet_conv3_3 net) x;
          x = fst (OSBlock_forward T ''conv4_0.'' (OSNet_conv4_0 net) x);
          (x, c1) = OSBlock_forward T ''conv4_1.'' (OSNet_conv4_1 net) x;
          a1 = Conv1x1_forward T ''conv_a.'' (OSNet_conv_a net) a1;
          b1 = Conv1x1_forward T ''conv_b.'' (OSNet_conv_b net) b1;
          c1 = Conv1x1_forward T ''conv_c.'' (OSNet_conv_c net) c1;
          x = Conv1x1_forward T ''conv5.'' (OSNet_conv5 net) x
      in (x, a1, b1, c1))"

text \<open>
  What \<^verbatim>\<open>OSNet.forward\<close> returns: the feature map \<open>c\<close> (line 383), the concatenated
  tensor of evaluation mode (line 408), the list of logits \<open>y\<close> (line 416), or the pair
  \<open>(y, v_)\<close> (line 418). The source's list \<^verbatim>\<open>v_\<close> is \<open>v_list\<close> below.
\<close>

datatype 't forward_result =
    Featuremap 't
  | Descriptor 't
  | Logits "'t list"
  | LogitsFeatures "'t list" "'t list"

definition OSNet_forward :: "'t torch \<Rightarrow> OSNet \<Rightarrow> 't \<Rightarrow> bool \<Rightarrow> error + 't forward_result" where
  "OSNet_forward T net x return_featuremaps =
     (case OSNet_featuremaps T net x of (x, a, b, c) \<Rightarrow>
      if return_featuremaps then Inr (Featuremap c)
      else
        let v = nn_call T ''global_avgpool'' (OSNet_global_avgpool net) x;
            va = nn_call T ''global_avgpool'' (OSNet_global_avgpool net) a;
            vb = nn_call T ''global_avgpool'' (OSNet_global_avgpool net) b;
            vc = nn_call T ''global_avgpool'' (OSNet_global_avgpool net) c;
            v = view_flat T v;
            va = view_flat T va;
            vb = view_flat T vb;
            vc = view_flat T vc;
            v_list = [v, va, vb, vc];
            v = nn_call T ''bn'' (OSNet_bn net) v;
            va = nn_call T ''bn_a'' (OSNet_bn_a net) va;
            vb = nn_call T ''bn_b'' (OSNet_bn_b net) vb;
            vc = nn_call T ''bn_c'' (OSNet_bn_c net) vc
        in if \<not> OSNet_training net then
             let v = F_normalize T v;
                 va = F_normalize T va;
                 vb = F_normalize T vb;
                 vc = F_normalize T vc
             in Inr (Descriptor (torch_cat T [v, va, vb, vc]))
           else
             let y = nn_call T ''classifier'' (OSNet_classifier net) v;
                 ya = nn_call T ''classifier_a'' (OSNet_classifier_a net) va;
                 yb = nn_call T ''classifier_b'' (OSNet_classifier_b net) vb;
                 yc = nn_call T ''classifier_c'' (OSNet_classifier_c net) vc;
                 y = [y, ya, yb, yc];
                 v = [v, va, vb, vc]
             in if OSNet_loss net = ''softmax'' then Inr (Logits y)
                else if OSNet_loss net = ''triplet'' then Inr (LogitsFeatures y v_list)
                else Inl (KeyError (''Unsupported loss: '' @ OSNet_loss net)))"

text \<open>
  \<^verbatim>\<open>pfh_osnet(num_classes, pretrained, loss, **kwargs)\<close>, lines 515--527; \<open>feature_dim\<close>
  and \<open>IN\<close> are the keyword arguments \<^verbatim>\<open>OSNet.__init__\<close> accepts. The three block classes
  are the same class \<^verbatim>\<open>OSBlock\<close>. \<^verbatim>\<open>init_pretrained_weights\<close> only loads parameter
  values from a file into the model, so \<open>pretrained\<close> does not change the module tree.
\<close>

datatype block_class = OSBlock_class

definition pfh_osnet :: "nat \<Rightarrow> bool \<Rightarrow> string \<Rightarrow> nat \<Rightarrow> bool \<Rightarrow> error + OSNet" where
  "pfh_osnet num_classes pretrained loss feature_dim IN =
     OSNet_init num_classes [OSBlock_class, OSBlock_class, OSBlock_class] [2, 2, 2 :: nat]
       [64, 256, 384, 512] feature_dim loss IN"

text \<open>\<^verbatim>\<open>model.eval()\<close> and \<^verbatim>\<open>model.train()\<close> on the network's own flag.\<close>

definition OSNet_eval :: "OSNet \<Rightarrow> OSNet" where
  "OSNet_eval net = net\<lparr>OSNet_training := False\<rparr>"

definition OSNet_train :: "OSNet \<Rightarrow> OSNet" where
  "OSNet_train net = net\<lparr>OSNet_training := True\<rparr>"

text \<open>
  The stages of \<^verbatim>\<open>forward\<close> by name: the four pooled and flattened vectors (lines
  381--395, the list \<^verbatim>\<open>v_\<close>), the four vectors after the per-head BatchNorm1d (lines
  397--400), and the four logits (lines 409--413).
\<close>

definition OSNet_pooled :: "'t torch \<Rightarrow> OSNet \<Rightarrow> 't \<Rightarrow> 't list" where
  "OSNet_pooled T net x =
     (case OSNet_featuremaps T net x of (x, a, b, c) \<Rightarrow>
        map (\<lambda>t. view_flat T (nn_call T ''global_avgpool'' (OSNet_global_avgpool net) t))
          [x, a, b, c])"

definition OSNet_heads :: "OSNet \<Rightarrow> (string \<times> layer) list" where
  "OSNet_heads net =
     [(''bn'', OSNet_bn net), (''bn_a'', OSNet_bn_a net),
      (''bn_b'', OSNet_bn_b net), (''bn_c'', OSNet_bn_c net)]"

definition OSNet_classifiers :: "OSNet \<Rightarrow> (string \<times> layer) list" where
  "OSNet_classifiers net =
     [(''classifier'', OSNet_classifier net), (''classifier_a'', OSNet_classifier_a net),
      (''classifier_b'', OSNet_classifier_b net), (''classifier_c'', OSNet_classifier_c net)]"

definition OSNet_normed :: "'t torch \<Rightarrow> OSNet \<Rightarrow> 't \<Rightarrow> 't list" where
  "OSNet_normed T net x =
     map2 (\<lambda>(name, l) v. nn_call T name l v) (OSNet_heads net) (OSNet_pooled T net x)"

definition OSNet_logits :: "'t torch \<Rightarrow> OSNet \<Rightarrow> 't \<Rightarrow> 't list" where
  "OSNet_logits T net x =
     map2 (\<lambda>(name, l) v. nn_call T name l v) (OSNet_classifiers net) (OSNet_normed T net x)"

text \<open>
  The paths of the four per-head BatchNorm1d modules, and two substrates that differ at most
  in what the modules at the paths in \<open>N\<close> compute (in their parameters, statistics or
  mode).
\<close>

definition head_paths :: "string set" where
  "head_paths = {''bn'', ''bn_a'', ''bn_b'', ''bn_c''}"

definition same_off :: "string set \<Rightarrow> 't torch \<Rightarrow> 't torch \<Rightarrow> bool" where
  "same_off N T T' \<longleftrightarrow>
     (\<forall>name l t. name \<notin> N \<longrightarrow> nn_call T' name l t = nn_call T name l t) \<and>
     torch_add T' = torch_add T \<and> torch_mul T' = torch_mul T \<and> F_relu T' = F_relu T \<and>
     F_normalize T' = F_normalize T \<and> view_flat T' = view_flat T \<and> torch_cat T' = torch_cat T"

text \<open>
  \<^verbatim>\<open>outputs, features = self.model(imgs)\<close> (triplet.py, line 85) for a model that is an
  OSNet: the pair \<open>(y, v_)\<close> of loss mode \<^verbatim>\<open>triplet\<close>; the four-element list of loss mode
  \<^verbatim>\<open>softmax\<close> does not unpack into two names (ValueError). \<^verbatim>\<open>train\<close> puts the model in
  training mode first (line 65) and passes no \<^verbatim>\<open>return_featuremaps\<close>, so the two tensor
  results do not arise there; they are given as ValueError.
\<close>

definition OSNet_call :: "'t torch \<Rightarrow> OSNet \<Rightarrow> 't \<Rightarrow> error + 't list \<times> 't list" where
  "OSNet_call T net imgs =
     rbind (OSNet_forward T net imgs False) (\<lambda>r.
       case r of
         LogitsFeatures y v \<Rightarrow> Inr (y, v)
       | Logits y \<Rightarrow> Inl ValueError
       | Descriptor t \<Rightarrow> Inl ValueError
       | Featuremap t \<Rightarrow> Inl ValueError)"

section \<open>Two substrates\<close>

subsection \<open>Shapes\<close>

text \<open>
  The shape substrate runs the network on tensor shapes: a tensor is its list of
  dimensions, \<open>None\<close> once an operation has raised. It follows PyTorch's shape rules for
  the operations above on batched inputs (4-D for the 2-D layers, 2-D or 3-D for
  BatchNorm1d); \<open>training\<close> is the train/eval flag of the leaf modules, which
  \<^verbatim>\<open>model.train()\<close> and \<^verbatim>\<open>model.eval()\<close> set for all of them.
\<close>

type_synonym shape = "nat list option"

definition shape4 :: "nat list \<Rightarrow> (nat \<Rightarrow> nat \<Rightarrow> nat \<Rightarrow> nat \<Rightarrow> shape) \<Rightarrow> shape" where
  "shape4 d f = (case d of [B, C, H, W] \<Rightarrow> f B C H W | _ \<Rightarrow> None)"

definition window_out :: "nat \<Rightarrow> nat \<Rightarrow> nat \<Rightarrow> nat \<Rightarrow> nat" where
  "window_out n kernel_size stride padding = (n + 2 * padding - kernel_size) div stride + 1"

fun shape_layer :: "bool \<Rightarrow> layer \<Rightarrow> nat list \<Rightarrow> shape" where
  "shape_layer training (Conv2d cin cout k s p b g) d =
     shape4 d (\<lambda>B C H W.
       if 0 < g \<and> cin mod g = 0 \<and> cout mod g = 0 \<and> 0 < s \<and> 0 < k \<and> C = cin
          \<and> k \<le> H + 2 * p \<and> k \<le> W + 2 * p
       then Some [B, cout, window_out H k s p, window_out W k s p] else None)"
| "shape_layer training (BatchNorm2d n) d =
     shape4 d (\<lambda>B C H W.
       if C = n \<and> (training \<longrightarrow> 1 < B * H * W) then Some [B, C, H, W] else None)"
| "shape_layer training (BatchNorm1d n) d =
     (case d of
        [B, C] \<Rightarrow> if C = n \<and> (training \<longrightarrow> 1 < B) then Some [B, C] else None
      | [B, C, L] \<Rightarrow> if C = n \<and> (training \<longrightarrow> 1 < B * L) then Some [B, C, L] else None
      | _ \<Rightarrow> None)"
| "shape_layer training (InstanceNorm2d n affine) d =
     shape4 d (\<lambda>B C H W.
       if (affine \<longrightarrow> C = n) \<and> 1 < H * W then Some [B, C, H, W] else None)"
| "shape_layer training (LayerNorm ns) d =
     (if length ns \<le> length d \<and> drop (length d - length ns) d = ns then Some d else None)"
| "shape_layer training (Linear i o') d =
     (if d \<noteq> [] \<and> last d = i then Some (butlast d @ [o']) else None)"
| "shape_layer training (ReLU inplace) d = Some d"
| "shape_layer training Sigmoid d = Some d"
| "shape_layer training (MaxPool2d k s p) d =
     shape4 d (\<lambda>B C H W.
       if 0 < s \<and> 0 < k \<and> 2 * p \<le> k \<and> k \<le> H + 2 * p \<and> k \<le> W + 2 * p
       then Some [B, C, window_out H k s p, window_out W k s p] else None)"
| "shape_layer training (AvgPool2d k s) d =
     shape4 d (\<lambda>B C H W.
       if 0 < s \<and> 0 < k \<and> k \<le> H \<and> k \<le> W
       then Some [B, C, window_out H k s 0, window_out W k s 0] else None)"
| "shape_layer training (AdaptiveAvgPool2d n) d =
     shape4 d (\<lambda>B C H W.
       if 0 < C \<and> 0 < H \<and> 0 < W then Some [B, C, n, n] else None)"

text \<open>Broadcasting of two shapes, aligned at the last dimension.\<close>

fun broadcast_rev :: "nat list \<Rightarrow> nat list \<Rightarrow> shape" where
  "broadcast_rev [] ys = Some ys"
| "broadcast_rev (x # xs) [] = Some (x # xs)"
| "broadcast_rev (x # xs) (y # ys) =
     (if x = y \<or> x = 1 \<or> y = 1
      then map_option ((#) (if x = 1 then y else x)) (broadcast_rev xs ys)
      else None)"

definition broadcast :: "shape \<Rightarrow> shape \<Rightarrow> shape" where
  "broadcast a b =
     (case (a, b) of
        (Some x, Some y) \<Rightarrow> map_option rev (broadcast_rev (rev x) (rev y))
      | _ \<Rightarrow> None)"

definition shape_view_flat :: "shape \<Rightarrow> shape" where
  "shape_view_flat a =
     (case a of
        Some (B # rest) \<Rightarrow> if 0 < B then Some [B, prod_list rest] else None
      | _ \<Rightarrow> None)"

definition shape_normalize :: "shape \<Rightarrow> shape" where
  "shape_normalize a = (case a of Some (B # C # rest) \<Rightarrow> Some (B # C # rest) | _ \<Rightarrow> None)"

fun shape_cat2 :: "shape \<Rightarrow> shape \<Rightarrow> shape" where
  "shape_cat2 (Some (B # C # rest)) (Some (B' # C' # rest')) =
     (if B = B' \<and> rest = rest' then Some (B # (C + C') # rest) else None)"
| "shape_cat2 a b = None"

fun shape_cat :: "shape list \<Rightarrow> shape" where
  "shape_cat [] = None"
| "shape_cat [a] = shape_normalize a"
| "shape_cat (a # b # bs) = shape_cat (shape_cat2 a b # bs)"

definition shape_torch :: "bool \<Rightarrow> shape torch" where
  "shape_torch training =
     \<lparr>nn_call = (\<lambda>name l a. case a of None \<Rightarrow> None | Some d \<Rightarrow> shape_layer training l d),
      torch_add = broadcast,
      torch_mul = broadcast,
      F_relu = (\<lambda>a. a),
      F_normalize = shape_normalize,
      view_flat = shape_view_flat,
      torch_cat = shape_cat\<rparr>"

subsection \<open>Computation graphs\<close>

text \<open>
  The symbolic substrate leaves every operation uninterpreted: a tensor is the expression
  that computes it from the inputs, each leaf-module call labelled with the module's path
  and constructor. Two outputs that are equal here are equal in every substrate.
\<close>

datatype sym =
    Input string
  | Call string layer sym
  | Add sym sym
  | Mul sym sym
  | Relu sym
  | Normalize sym
  | Flat sym
  | Cat "sym list"

definition sym_torch :: "sym torch" where
  "sym_torch =
     \<lparr>nn_call = Call, torch_add = Add, torch_mul = Mul, F_relu = Relu,
      F_normalize = Normalize, view_flat = Flat, torch_cat = Cat\<rparr>"

section \<open>ImageTripletEngine (triplet.py)\<close>

text \<open>
  The loss modules of \<^verbatim>\<open>torchreid.losses\<close> as the engine constructs them:
  \<open>TripletLoss margin\<close>, \<open>CrossEntropyLoss num_classes use_gpu label_smooth\<close>,
  \<open>CenterLoss num_classes feat_dim\<close>. Loss values and weights are real numbers.
\<close>

datatype criterion =
    TripletLoss real
  | CrossEntropyLoss nat bool bool
  | CenterLoss nat nat

text \<open>
  The fields \<^verbatim>\<open>__init__\<close> sets (lines 26--50). The four center criteria are attributes
  that exist only when \<^verbatim>\<open>__init__\<close> assigned them, hence options. The base class
  \<^verbatim>\<open>Engine\<close> is not among the source files; of what its \<^verbatim>\<open>__init__\<close> stores,
  \<open>use_gpu\<close> is \<^verbatim>\<open>self.use_gpu\<close> and \<open>has_scheduler\<close> is
  \<^verbatim>\<open>self.scheduler is not None\<close>. The arguments of \<open>ImageTripletEngine_init\<close> are
  \<^verbatim>\<open>self.datamanager.num_train_pids\<close>, \<open>margin\<close>, the three weights, whether a scheduler
  is given, \<^verbatim>\<open>self.use_gpu\<close> and \<open>label_smooth\<close>.
\<close>

record engine =
  weight_t :: real
  weight_x :: real
  weight_c :: real
  criterion_t :: criterion
  criterion_x :: criterion
  criterion_c :: "criterion option"
  criterion_ca :: "criterion option"
  criterion_cb :: "criterion option"
  criterion_cc :: "criterion option"
  use_gpu :: bool
  has_scheduler :: bool

definition ImageTripletEngine_init ::
  "nat \<Rightarrow> real \<Rightarrow> real \<Rightarrow> real \<Rightarrow> real \<Rightarrow> bool \<Rightarrow> bool \<Rightarrow> bool \<Rightarrow> engine" where
  "ImageTripletEngine_init num_train_pids margin w_t w_x w_c scheduler gpu label_smooth =
     (let self = \<lparr>weight_t = w_t, weight_x = w_x, weight_c = w_c,
                  criterion_t = TripletLoss margin,
                  criterion_x = CrossEntropyLoss num_train_pids gpu label_smooth,
                  criterion_c = None, criterion_ca = None,
                  criterion_cb = None, criterion_cc = None,
                  use_gpu = gpu, has_scheduler = scheduler\<rparr>
      in if weight_c self \<noteq> 0 then
           self\<lparr>criterion_c := Some (CenterLoss num_train_pids 512),
                criterion_ca := Some (CenterLoss num_train_pids 64),
                criterion_cb := Some (CenterLoss num_train_pids 96),
                criterion_cc := Some (CenterLoss num_train_pids 128)\<rparr>
         else self)"

text \<open>
  What \<^verbatim>\<open>_compute_loss\<close> is given as its second argument: one tensor or a list of
  tensors.
\<close>

datatype 't loss_input = Single 't | Many "'t list"

text \<open>
  The effects of \<^verbatim>\<open>train\<close> that the claims speak of, in the order they happen:
  \<^item> \<open>OnlyTrain open_layers (epoch + 1) fixbase_epoch\<close>: the line printed at line 67;
  \<^item> \<open>LossEval criterion input\<close>: a call \<^verbatim>\<open>self._compute_loss(criterion, input, pids)\<close>;
  \<^item> \<open>Backward loss\<close>: \<^verbatim>\<open>loss.backward()\<close> and the optimizer step on the total \<open>loss\<close>;
  \<^item> \<open>Progress (epoch + 1) max_epoch (batch_idx + 1) num_batches\<close>: the progress line
    printed at lines 118--132;
  \<^item> \<open>AddScalar tag n_iter\<close>: a call \<^verbatim>\<open>writer.add_scalar(tag, _, n_iter)\<close>;
  \<^item> \<open>SchedulerStep\<close>: \<^verbatim>\<open>self.scheduler.step()\<close>.
  The printed and written values (running averages of wall-clock times, losses and
  accuracy) are floating-point readings of the meters and are not part of an event.
\<close>

datatype 't event =
    OnlyTrain "string list" int int
  | LossEval criterion "'t loss_input"
  | Backward real
  | Progress int int int int
  | AddScalar string int
  | SchedulerStep

text \<open>
  The collaborators of \<^verbatim>\<open>train\<close> that are not in the two source files are parameters:
  \<open>'m\<close> is the state of model, optimizer and scheduler, \<open>'d\<close> a batch of the loader,
  \<open>'i\<close> and \<open>'p\<close> the images and identity labels.
  \<^item> \<open>model_train\<close>: \<^verbatim>\<open>self.model.train()\<close>;
  \<^item> \<open>open_specified_layers\<close>, \<open>open_all_layers\<close>: the functions of
    \<^verbatim>\<open>torchreid.utils\<close>;
  \<^item> \<open>parse_data_for_train\<close>: \<^verbatim>\<open>self._parse_data_for_train(data)\<close>;
  \<^item> \<open>cuda_imgs\<close>, \<open>cuda_pids\<close>: \<^verbatim>\<open>.cuda()\<close>;
  \<^item> \<open>model_call\<close>: \<^verbatim>\<open>self.model(imgs)\<close> together with the unpacking
    \<^verbatim>\<open>outputs, features = ...\<close> of line 85;
  \<^item> \<open>compute_loss\<close>: \<^verbatim>\<open>self._compute_loss(criterion, input, pids)\<close>;
  \<^item> \<open>optimizer_step\<close>: \<^verbatim>\<open>zero_grad()\<close>, \<^verbatim>\<open>loss.backward()\<close> and
    \<^verbatim>\<open>self.optimizer.step()\<close> for the batch and its total loss;
  \<^item> \<open>scheduler_step\<close>: \<^verbatim>\<open>self.scheduler.step()\<close>.
\<close>

record ('m, 'd, 'i, 'p, 't) env =
  model_train :: "'m \<Rightarrow> 'm"
  open_specified_layers :: "'m \<Rightarrow> string list \<Rightarrow> 'm"
  open_all_layers :: "'m \<Rightarrow> 'm"
  parse_data_for_train :: "'d \<Rightarrow> 'i \<times> 'p"
  cuda_imgs :: "'i \<Rightarrow> 'i"
  cuda_pids :: "'p \<Rightarrow> 'p"
  model_call :: "'m \<Rightarrow> 'i \<Rightarrow> error + 't list \<times> 't list"
  compute_loss :: "criterion \<Rightarrow> 't loss_input \<Rightarrow> 'p \<Rightarrow> real"
  optimizer_step :: "'m \<Rightarrow> 'i \<Rightarrow> 'p \<Rightarrow> real \<Rightarrow> 'm"
  scheduler_step :: "'m \<Rightarrow> 'm"

text \<open>Lines 65--71: the start of \<^verbatim>\<open>train\<close>.\<close>

definition train_prologue ::
  "('m, 'd, 'i, 'p, 't) env \<Rightarrow> int \<Rightarrow> int \<Rightarrow> string list option \<Rightarrow> 'm \<Rightarrow> 'm \<times> 't event list" where
  "train_prologue E epoch fixbase_epoch open_layers m =
     (let m = model_train E m in
      if epoch + 1 \<le> fixbase_epoch \<and> open_layers \<noteq> None then
        (open_specified_layers E m (the open_layers),
         [OnlyTrain (the open_layers) (epoch + 1) fixbase_epoch])
      else (open_all_layers E m, []))"

text \<open>
  Lines 88--100. An attribute that \<^verbatim>\<open>__init__\<close> did not assign raises AttributeError.
  The result is \<open>(self.weight_c, loss_c)\<close> as line 102 reads them, and the loss
  evaluations made. In the \<^verbatim>\<open>else\<close> branch the assignment \<^verbatim>\<open>self.weight_c = 0\<close> stores
  the value the field already has.
\<close>

definition attribute :: "string \<Rightarrow> 'a option \<Rightarrow> error + 'a" where
  "attribute name a = (case a of None \<Rightarrow> Inl (AttributeError name) | Some v \<Rightarrow> Inr v)"

definition center_loss ::
  "('m, 'd, 'i, 'p, 't) env \<Rightarrow> engine \<Rightarrow> 't list \<Rightarrow> 'p \<Rightarrow> error + real \<times> real \<times> 't event list" where
  "center_loss E self features pids =
     (if weight_c self \<noteq> 0 then
        rbind (attribute ''criterion_c'' (criterion_c self)) (\<lambda>c.
        rbind (py_index features 0) (\<lambda>f0.
        let loss_c = compute_loss E c (Single f0) pids in
        rbind (attribute ''criterion_ca'' (criterion_ca self)) (\<lambda>ca.
        rbind (py_index features 1) (\<lambda>f1.
        let loss_ca = compute_loss E ca (Single f1) pids in
        rbind (attribute ''criterion_cb'' (criterion_cb self)) (\<lambda>cb.
        rbind (py_index features 2) (\<lambda>f2.
        let loss_cb = compute_loss E cb (Single f2) pids in
        rbind (attribute ''criterion_cc'' (criterion_cc self)) (\<lambda>cc.
        rbind (py_index features 3) (\<lambda>f3.
        let loss_cc = compute_loss E cc (Single f3) pids;
            loss_c = loss_c + loss_ca + loss_cb + loss_cc
        in Inr (weight_c self, loss_c,
                [LossEval c (Single f0), LossEval ca (Single f1),
                 LossEval cb (Single f2), LossEval cc (Single f3)])))))))))
      else Inr (0, 0, []))"

text \<open>Lines 134--142: the six scalars written for iteration \<open>n_iter\<close>.\<close>

definition add_scalars :: "int \<Rightarrow> 't event list" where
  "add_scalars n_iter =
     [AddScalar ''Train/Time'' n_iter, AddScalar ''Train/Data'' n_iter,
      AddScalar ''Train/Loss_t'' n_iter, AddScalar ''Train/Loss_x'' n_iter,
      AddScalar ''Train/Acc'' n_iter, AddScalar ''Train/Lr'' n_iter]"

text \<open>
  Lines 76--144: the body of the loop for the batch \<open>data\<close> at index \<open>batch_idx\<close>.
  \<open>writer\<close> is \<^verbatim>\<open>writer is not None\<close>. \<^verbatim>\<open>%\<close> on integers is \<open>mod\<close> (the result has the
  sign of the divisor) and raises ZeroDivisionError for a zero divisor.
\<close>

definition train_batch ::
  "('m, 'd, 'i, 'p, 't) env \<Rightarrow> engine \<Rightarrow> int \<Rightarrow> int \<Rightarrow> bool \<Rightarrow> int \<Rightarrow> nat \<Rightarrow> nat \<Rightarrow> 'd \<Rightarrow> 'm
     \<Rightarrow> error + 'm \<times> 't event list" where
  "train_batch E self epoch max_epoch writer print_freq num_batches batch_idx data m =
     (case parse_data_for_train E data of (imgs, pids) \<Rightarrow>
      let imgs = (if use_gpu self then cuda_imgs E imgs else imgs);
          pids = (if use_gpu self then cuda_pids E pids else pids)
      in
      rbind (model_call E m imgs) (\<lambda>(outputs, features).
      let loss_t = compute_loss E (criterion_t self) (Many features) pids;
          loss_x = compute_loss E (criterion_x self) (Many outputs) pids
      in
      rbind (center_loss E self features pids) (\<lambda>(self_weight_c, loss_c, evs_c).
      let loss = weight_t self * loss_t + weight_x self * loss_x + self_weight_c * loss_c;
          m = optimizer_step E m imgs pids loss
      in
      rbind (if print_freq = 0 then Inl ZeroDivisionError
             else Inr (if (int batch_idx + 1) mod print_freq = 0
                       then [Progress (epoch + 1) max_epoch (int batch_idx + 1) (int num_batches)]
                       else [])) (\<lambda>evs_p.
      let evs_w = (if writer then add_scalars (epoch * int num_batches + int batch_idx) else [])
      in Inr (m, [LossEval (criterion_t self) (Many features),
                  LossEval (criterion_x self) (Many outputs)]
                 @ evs_c @ [Backward loss] @ evs_p @ evs_w)))))"

text \<open>Lines 75--144: the loop over the batches, from index \<open>batch_idx\<close> on.\<close>

fun train_loop ::
  "('m, 'd, 'i, 'p, 't) env \<Rightarrow> engine \<Rightarrow> int \<Rightarrow> int \<Rightarrow> bool \<Rightarrow> int \<Rightarrow> nat \<Rightarrow> nat \<Rightarrow> 'd list \<Rightarrow> 'm
     \<Rightarrow> error + 'm \<times> 't event list" where
  "train_loop E self epoch max_epoch writer print_freq num_batches batch_idx [] m = Inr (m, [])"
| "train_loop E self epoch max_epoch writer print_freq num_batches batch_idx (data # rest) m =
     rbind (train_batch E self epoch max_epoch writer print_freq num_batches batch_idx data m)
       (\<lambda>(m, evs).
     rbind (train_loop E self epoch max_epoch writer print_freq num_batches (Suc batch_idx) rest m)
       (\<lambda>(m, evs'). Inr (m, evs @ evs')))"

text \<open>
  \<^verbatim>\<open>ImageTripletEngine.train(epoch, max_epoch, writer, print_freq, fixbase_epoch,
  open_layers)\<close>, lines 52--147; \<open>train_loader\<close> is the list of batches that
  \<^verbatim>\<open>self.train_loader\<close> yields.
\<close>

definition train ::
  "('m, 'd, 'i, 'p, 't) env \<Rightarrow> engine \<Rightarrow> 'd list \<Rightarrow> int \<Rightarrow> int \<Rightarrow> bool \<Rightarrow> int \<Rightarrow> int
     \<Rightarrow> string list option \<Rightarrow> 'm \<Rightarrow> error + 'm \<times> 't event list" where
  "train E self train_loader epoch max_epoch writer print_freq fixbase_epoch open_layers m =
     (case train_prologue E epoch fixbase_epoch open_layers m of (m, evs0) \<Rightarrow>
      let num_batches = length train_loader in
      rbind (train_loop E self epoch max_epoch writer print_freq num_batches 0 train_loader m)
        (\<lambda>(m, evs).
           if has_scheduler self then Inr (scheduler_step E m, evs0 @ evs @ [SchedulerStep])
           else Inr (m, evs0 @ evs)))"

subsection \<open>The layer-freezing helpers\<close>

text \<open>
  Modelled from the spec: \<^verbatim>\<open>open_specified_layers\<close> and \<^verbatim>\<open>open_all_layers\<close> of
  \<^verbatim>\<open>torchreid.utils\<close> are imported by triplet.py but are not among the source files. The
  spec says of them: ``freeze every layer except the named set (their parameters become
  non-trainable for this epoch only); otherwise all layers are trainable''. The state is
  the list of the model's layers by name, each with its trainable flag.
\<close>

type_synonym layer_flags = "(string \<times> bool) list"

definition open_specified_layers_spec :: "layer_flags \<Rightarrow> string list \<Rightarrow> layer_flags" where
  "open_specified_layers_spec m open_layers = map (\<lambda>(name, _). (name, name \<in> set open_layers)) m"

definition open_all_layers_spec :: "layer_flags \<Rightarrow> layer_flags" where
  "open_all_layers_spec m = map (\<lambda>(name, _). (name, True)) m"

text \<open>
  A small environment to run \<^verbatim>\<open>train\<close> on concrete inputs: the state is the list of
  layer flags with the two helpers above, unchanged by \<^verbatim>\<open>model.train()\<close>, the optimizer
  and the scheduler; a batch is the pair of its images and labels; the model call and the
  losses are given.
\<close>

definition test_env ::
  "('i \<Rightarrow> error + 't list \<times> 't list) \<Rightarrow> (criterion \<Rightarrow> 't loss_input \<Rightarrow> nat \<Rightarrow> real)
     \<Rightarrow> (layer_flags, 'i \<times> nat, 'i, nat, 't) env" where
  "test_env call loss =
     \<lparr>model_train = (\<lambda>m. m),
      open_specified_layers = open_specified_layers_spec,
      open_all_layers = open_all_layers_spec,
      parse_data_for_train = (\<lambda>data. data),
      cuda_imgs = (\<lambda>imgs. imgs),
      cuda_pids = (\<lambda>pids. pids),
      model_call = (\<lambda>m. call),
      compute_loss = loss,
      optimizer_step = (\<lambda>m imgs pids l. m),
      scheduler_step = (\<lambda>m. m)\<rparr>"

subsection \<open>Reading the effects\<close>

text \<open>
  Of a list of events: the \<open>(tag, n_iter)\<close> pairs written to the writer, the progress
  lines printed, the totals handed to \<^verbatim>\<open>backward\<close>, and the loss evaluations.
\<close>

definition written :: "'t event list \<Rightarrow> (string \<times> int) list" where
  "written evs = concat (map (\<lambda>e. case e of AddScalar tag n \<Rightarrow> [(tag, n)] | _ \<Rightarrow> []) evs)"

definition progress_lines :: "'t event list \<Rightarrow> (int \<times> int \<times> int \<times> int) list" where
  "progress_lines evs =
     concat (map (\<lambda>e. case e of Progress a b c d \<Rightarrow> [(a, b, c, d)] | _ \<Rightarrow> []) evs)"

definition backward_losses :: "'t event list \<Rightarrow> real list" where
  "backward_losses evs = concat (map (\<lambda>e. case e of Backward l \<Rightarrow> [l] | _ \<Rightarrow> []) evs)"

definition loss_evals :: "'t event list \<Rightarrow> (criterion \<times> 't loss_input) list" where
  "loss_evals evs = concat (map (\<lambda>e. case e of LossEval c x \<Rightarrow> [(c, x)] | _ \<Rightarrow> []) evs)"

text \<open>The tags of lines 136--142, in the order written.\<close>

definition scalar_tags :: "string list" where
  "scalar_tags =
     [''Train/Time'', ''Train/Data'', ''Train/Loss_t'', ''Train/Loss_x'', ''Train/Acc'',
      ''Train/Lr'']"

section \<open>Construction of the gate and the block\<close>

lemma rbind_simps:
  "rbind (Inl e) f = Inl e" "rbind (Inr v) f = f v"
  by (simp_all add: rbind_def)

lemma nn_Conv2d_ungrouped:
  "nn_Conv2d in_channels out_channels kernel_size stride padding bias (Suc 0) =
     Inr (Conv2d in_channels out_channels kernel_size stride padding bias (Suc 0))"
  by (simp add: nn_Conv2d_def)

lemma nn_Conv2d_depthwise:
  "nn_Conv2d c c kernel_size stride padding bias c =
     (if c = 0 then Inl ValueError else Inr (Conv2d c c kernel_size stride padding bias c))"
  by (simp add: nn_Conv2d_def)

lemma ConvLayer_init_eq:
  "ConvLayer_init in_channels out_channels kernel_size stride padding (Suc 0) IN =
     Inr \<lparr>ConvLayer_conv = Conv2d in_channels out_channels kernel_size stride padding False (Suc 0),
          ConvLayer_bn =
            (if IN then InstanceNorm2d out_channels True else BatchNorm2d out_channels),
          ConvLayer_relu = ReLU True\<rparr>"
  by (simp add: ConvLayer_init_def nn_Conv2d_ungrouped rbind_simps)

lemma Conv1x1_init_eq:
  "Conv1x1_init in_channels out_channels stride (Suc 0) =
     Inr \<lparr>Conv1x1_conv = Conv2d in_channels out_channels (Suc 0) stride 0 False (Suc 0),
          Conv1x1_bn = BatchNorm2d out_channels,
          Conv1x1_relu = ReLU True\<rparr>"
  by (simp add: Conv1x1_init_def nn_Conv2d_ungrouped rbind_simps)

lemma Conv1x1Linear_init_eq:
  "Conv1x1Linear_init in_channels out_channels stride =
     Inr \<lparr>Conv1x1Linear_conv = Conv2d in_channels out_channels (Suc 0) stride 0 False (Suc 0),
          Conv1x1Linear_bn = BatchNorm2d out_channels\<rparr>"
  by (simp add: Conv1x1Linear_init_def nn_Conv2d_ungrouped rbind_simps)

lemma LightConv3x3_init_eq:
  "LightConv3x3_init in_channels out_channels =
     (if out_channels = 0 then Inl ValueError
      else Inr \<lparr>LightConv3x3_conv1 = Conv2d in_channels out_channels (Suc 0) (Suc 0) 0 False (Suc 0),
                LightConv3x3_conv2 =
                  Conv2d out_channels out_channels 3 (Suc 0) (Suc 0) False out_channels,
                LightConv3x3_bn = BatchNorm2d out_channels,
                LightConv3x3_relu = ReLU True\<rparr>)"
  by (simp add: LightConv3x3_init_def nn_Conv2d_ungrouped nn_Conv2d_depthwise rbind_simps)

lemma Sequential_init_replicate:
  "Sequential_init (replicate n (Inr m)) = Inr (replicate n m)"
  by (induction n) (simp_all add: rbind_simps)

lemma Sequential_init_raises:
  "Sequential_init (replicate (Suc n) (Inl e)) = Inl e"
  by (simp add: rbind_simps)

lemma ChannelGate_init_unknown:
  assumes "gate_activation \<noteq> ''sigmoid''" "gate_activation \<noteq> ''relu''"
    "gate_activation \<noteq> ''linear''"
  shows "ChannelGate_init in_channels num_gates return_gates gate_activation reduction layer_norm =
    Inl (if reduction = 0 then ZeroDivisionError
         else RuntimeError (''Unknown gate activation: '' @ gate_activation))"
  using assms
  by (simp add: ChannelGate_init_def py_floordiv_def nn_Conv2d_ungrouped rbind_simps Let_def)

lemma ChannelGate_init_known:
  assumes "gate_activation \<in> {''sigmoid'', ''relu'', ''linear''}" "reduction \<noteq> 0"
  shows "ChannelGate_init in_channels num_gates return_gates gate_activation reduction layer_norm =
    Inr \<lparr>ChannelGate_return_gates = return_gates,
         ChannelGate_global_avgpool = AdaptiveAvgPool2d 1,
         ChannelGate_fc1 = Conv2d in_channels (in_channels div reduction) 1 1 0 True 1,
         ChannelGate_norm1 =
           (if layer_norm then Some (LayerNorm [in_channels div reduction, 1, 1]) else None),
         ChannelGate_relu = ReLU True,
         ChannelGate_fc2 =
           Conv2d (in_channels div reduction)
             (case num_gates of None \<Rightarrow> in_channels | Some n \<Rightarrow> n) 1 1 0 True 1,
         ChannelGate_gate_activation =
           (if gate_activation = ''sigmoid'' then Some Sigmoid
            else if gate_activation = ''relu'' then Some (ReLU True) else None)\<rparr>"
  using assms
  by (auto simp add: ChannelGate_init_def py_floordiv_def nn_Conv2d_ungrouped rbind_simps Let_def)

lemma ChannelGate_init_zero_reduction:
  "ChannelGate_init in_channels num_gates return_gates gate_activation 0 layer_norm =
     Inl ZeroDivisionError"
  by (simp add: ChannelGate_init_def py_floordiv_def rbind_simps Let_def)

lemma ChannelGate_forward_no_activation:
  assumes "ChannelGate_gate_activation g = None"
  shows "ChannelGate_forward T p g x =
    (let pooled = nn_call T (p @ ''global_avgpool'') (ChannelGate_global_avgpool g) x;
         hidden = nn_call T (p @ ''fc1'') (ChannelGate_fc1 g) pooled;
         hidden = (case ChannelGate_norm1 g of None \<Rightarrow> hidden
                   | Some n \<Rightarrow> nn_call T (p @ ''norm1'') n hidden);
         gates = nn_call T (p @ ''fc2'') (ChannelGate_fc2 g)
                   (nn_call T (p @ ''relu'') (ChannelGate_relu g) hidden)
     in if ChannelGate_return_gates g then gates else torch_mul T x gates)"
  using assms by (simp add: ChannelGate_forward_def Let_def)

text \<open>
  Claim C8. Take a ChannelGate constructor call with a positive \<open>reduction\<close> (the default
  is 16). A gate activation other than \<^verbatim>\<open>sigmoid\<close>, \<^verbatim>\<open>relu\<close> and \<^verbatim>\<open>linear\<close> makes
  \<^verbatim>\<open>ChannelGate.__init__\<close> raise the RuntimeError of line 187, so the failure is at
  construction and never at a forward call. For the three recognised values construction
  succeeds, the gate holds Sigmoid, ReLU or no activation module accordingly, and with
  \<^verbatim>\<open>linear\<close> the forward pass uses the output of \<^verbatim>\<open>fc2\<close> as the gate values with no
  activation applied. The claim does not speak of \<open>reduction = 0\<close>, where the division of
  line 166 raises before the activation is looked at (\<open>ChannelGate_init_zero_reduction\<close>);
  the only ChannelGate the source constructs has the default reduction.
\<close>

theorem ChannelGate_init_activation:
  assumes "0 < reduction"
  shows
  "(gate_activation \<notin> {''sigmoid'', ''relu'', ''linear''} \<longrightarrow>
      ChannelGate_init in_channels num_gates return_gates gate_activation reduction layer_norm =
        Inl (RuntimeError (''Unknown gate activation: '' @ gate_activation))) \<and>
   (gate_activation \<in> {''sigmoid'', ''relu'', ''linear''} \<longrightarrow>
      (\<exists>g. ChannelGate_init in_channels num_gates return_gates gate_activation reduction
              layer_norm = Inr g \<and>
           ChannelGate_gate_activation g =
             (if gate_activation = ''sigmoid'' then Some Sigmoid
              else if gate_activation = ''relu'' then Some (ReLU True) else None) \<and>
           (gate_activation = ''linear'' \<longrightarrow>
              ChannelGate_forward T p g x =
                (let pooled = nn_call T (p @ ''global_avgpool'') (ChannelGate_global_avgpool g) x;
                     hidden = nn_call T (p @ ''fc1'') (ChannelGate_fc1 g) pooled;
                     hidden = (case ChannelGate_norm1 g of None \<Rightarrow> hidden
                               | Some n \<Rightarrow> nn_call T (p @ ''norm1'') n hidden);
                     gates = nn_call T (p @ ''fc2'') (ChannelGate_fc2 g)
                               (nn_call T (p @ ''relu'') (ChannelGate_relu g) hidden)
                 in if return_gates then gates else torch_mul T x gates))))"
proof (intro conjI impI)
  assume "gate_activation \<notin> {''sigmoid'', ''relu'', ''linear''}"
  then have "ChannelGate_init in_channels num_gates return_gates gate_activation reduction
      layer_norm =
        Inl (if reduction = 0 then ZeroDivisionError
             else RuntimeError (''Unknown gate activation: '' @ gate_activation))"
    by (intro ChannelGate_init_unknown) simp_all
  with assms show "ChannelGate_init in_channels num_gates return_gates gate_activation reduction
      layer_norm = Inl (RuntimeError (''Unknown gate activation: '' @ gate_activation))"
    by simp
next
  assume known: "gate_activation \<in> {''sigmoid'', ''relu'', ''linear''}"
  define g where "g = \<lparr>ChannelGate_return_gates = return_gates,
         ChannelGate_global_avgpool = AdaptiveAvgPool2d 1,
         ChannelGate_fc1 = Conv2d in_channels (in_channels div reduction) 1 1 0 True 1,
         ChannelGate_norm1 =
           (if layer_norm then Some (LayerNorm [in_channels div reduction, 1, 1]) else None),
         ChannelGate_relu = ReLU True,
         ChannelGate_fc2 =
           Conv2d (in_channels div reduction)
             (case num_gates of None \<Rightarrow> in_channels | Some n \<Rightarrow> n) 1 1 0 True 1,
         ChannelGate_gate_activation =
           (if gate_activation = ''sigmoid'' then Some Sigmoid
            else if gate_activation = ''relu'' then Some (ReLU True) else None)\<rparr>"
  have init: "ChannelGate_init in_channels num_gates return_gates gate_activation reduction
      layer_norm = Inr g"
    unfolding g_def using known assms by (intro ChannelGate_init_known) simp_all
  have act: "ChannelGate_gate_activation g =
      (if gate_activation = ''sigmoid'' then Some Sigmoid
       else if gate_activation = ''relu'' then Some (ReLU True) else None)"
    and rg: "ChannelGate_return_gates g = return_gates"
    by (simp_all add: g_def)
  have "gate_activation = ''linear'' \<Longrightarrow> ChannelGate_gate_activation g = None"
    by (simp add: act)
  then have fwd: "gate_activation = ''linear'' \<longrightarrow>
      ChannelGate_forward T p g x =
        (let pooled = nn_call T (p @ ''global_avgpool'') (ChannelGate_global_avgpool g) x;
             hidden = nn_call T (p @ ''fc1'') (ChannelGate_fc1 g) pooled;
             hidden = (case ChannelGate_norm1 g of None \<Rightarrow> hidden
                       | Some n \<Rightarrow> nn_call T (p @ ''norm1'') n hidden);
             gates = nn_call T (p @ ''fc2'') (ChannelGate_fc2 g)
                       (nn_call T (p @ ''relu'') (ChannelGate_relu g) hidden)
         in if return_gates then gates else torch_mul T x gates)"
    using ChannelGate_forward_no_activation [of g T p x] rg by simp
  from init act fwd show "\<exists>g. ChannelGate_init in_channels num_gates return_gates
      gate_activation reduction layer_norm = Inr g \<and>
           ChannelGate_gate_activation g =
             (if gate_activation = ''sigmoid'' then Some Sigmoid
              else if gate_activation = ''relu'' then Some (ReLU True) else None) \<and>
           (gate_activation = ''linear'' \<longrightarrow>
              ChannelGate_forward T p g x =
                (let pooled = nn_call T (p @ ''global_avgpool'') (ChannelGate_global_avgpool g) x;
                     hidden = nn_call T (p @ ''fc1'') (ChannelGate_fc1 g) pooled;
                     hidden = (case ChannelGate_norm1 g of None \<Rightarrow> hidden
                               | Some n \<Rightarrow> nn_call T (p @ ''norm1'') n hidden);
                     gates = nn_call T (p @ ''fc2'') (ChannelGate_fc2 g)
                               (nn_call T (p @ ''relu'') (ChannelGate_relu g) hidden)
                 in if return_gates then gates else torch_mul T x gates))"
    by blast
qed

text \<open>
  The theorem at three inputs, each with the default \<^verbatim>\<open>reduction=16\<close>:
  \<^verbatim>\<open>ChannelGate(64, gate_activation='tanh')\<close> raises the RuntimeError,
  \<^verbatim>\<open>ChannelGate(64, gate_activation='relu')\<close> is built with a ReLU as its activation
  module, and \<^verbatim>\<open>ChannelGate(64, gate_activation='linear')\<close> is built without an
  activation module and multiplies the input by the output of \<^verbatim>\<open>fc2\<close>.
\<close>

theorem ChannelGate_init_activation_witness:
  "ChannelGate_init 64 None False ''tanh'' 16 False =
     Inl (RuntimeError ''Unknown gate activation: tanh'') \<and>
   (\<exists>g. ChannelGate_init 64 None False ''relu'' 16 False = Inr g \<and>
        ChannelGate_gate_activation g = Some (ReLU True)) \<and>
   (\<exists>g. ChannelGate_init 64 None False ''linear'' 16 False = Inr g \<and>
        ChannelGate_gate_activation g = None \<and>
        ChannelGate_forward sym_torch ''gate.'' g (Input ''x'') =
          Mul (Input ''x'')
            (Call ''gate.fc2'' (Conv2d 4 64 1 1 0 True 1)
              (Call ''gate.relu'' (ReLU True)
                (Call ''gate.fc1'' (Conv2d 64 4 1 1 0 True 1)
                  (Call ''gate.global_avgpool'' (AdaptiveAvgPool2d 1) (Input ''x''))))))"
proof -
  have pos: "0 < (16 :: nat)"
    by simp
  have a: "ChannelGate_init 64 None False ''tanh'' 16 False =
      Inl (RuntimeError ''Unknown gate activation: tanh'')"
    using ChannelGate_init_activation [OF pos, of "''tanh''" 64 None False False] by simp
  have r: "\<exists>g. ChannelGate_init 64 None False ''relu'' 16 False = Inr g \<and>
        ChannelGate_gate_activation g = Some (ReLU True)"
    using ChannelGate_init_activation [OF pos, of "''relu''" 64 None False False] by auto
  obtain g where g: "ChannelGate_init 64 None False ''linear'' 16 False = Inr g"
    and act: "ChannelGate_gate_activation g = None"
    and fwd: "ChannelGate_forward sym_torch ''gate.'' g (Input ''x'') =
      (let pooled = nn_call sym_torch (''gate.'' @ ''global_avgpool'')
                      (ChannelGate_global_avgpool g) (Input ''x'');
           hidden = nn_call sym_torch (''gate.'' @ ''fc1'') (ChannelGate_fc1 g) pooled;
           hidden = (case ChannelGate_norm1 g of None \<Rightarrow> hidden
                     | Some n \<Rightarrow> nn_call sym_torch (''gate.'' @ ''norm1'') n hidden);
           gates = nn_call sym_torch (''gate.'' @ ''fc2'') (ChannelGate_fc2 g)
                     (nn_call sym_torch (''gate.'' @ ''relu'') (ChannelGate_relu g) hidden)
       in if False then gates else torch_mul sym_torch (Input ''x'') gates)"
    using ChannelGate_init_activation
      [OF pos, of "''linear''" 64 None False False sym_torch "''gate.''" "Input ''x''"]
    by auto
  have fields: "ChannelGate_global_avgpool g = AdaptiveAvgPool2d 1"
    "ChannelGate_fc1 g = Conv2d 64 4 1 1 0 True 1" "ChannelGate_norm1 g = None"
    "ChannelGate_relu g = ReLU True" "ChannelGate_fc2 g = Conv2d 4 64 1 1 0 True 1"
    using g by (auto simp add: ChannelGate_init_known)
  from a r g act fwd show ?thesis
    by (simp add: fields sym_torch_def)
qed

lemma OSBlock_init_eq:
  "OSBlock_init in_channels out_channels IN bottleneck_reduction =
    (if bottleneck_reduction = 0 then Inl ZeroDivisionError
     else if out_channels div bottleneck_reduction = 0 then Inl ValueError
     else let mid_channels = out_channels div bottleneck_reduction;
              light = \<lparr>LightConv3x3_conv1 = Conv2d mid_channels mid_channels 1 1 0 False 1,
                       LightConv3x3_conv2 = Conv2d mid_channels mid_channels 3 1 1 False mid_channels,
                       LightConv3x3_bn = BatchNorm2d mid_channels,
                       LightConv3x3_relu = ReLU True\<rparr>
       in
       Inr \<lparr>OSBlock_conv1 = \<lparr>Conv1x1_conv = Conv2d in_channels mid_channels 1 1 0 False 1,
                             Conv1x1_bn = BatchNorm2d mid_channels,
                             Conv1x1_relu = ReLU True\<rparr>,
            OSBlock_conv2a = light,
            OSBlock_conv2b = replicate 2 light,
            OSBlock_conv2c = replicate 3 light,
            OSBlock_conv2d = replicate 4 light,
            OSBlock_gate = \<lparr>ChannelGate_return_gates = False,
               ChannelGate_global_avgpool = AdaptiveAvgPool2d 1,
               ChannelGate_fc1 = Conv2d mid_channels (mid_channels div 16) 1 1 0 True 1,
               ChannelGate_norm1 = None,
               ChannelGate_relu = ReLU True,
               ChannelGate_fc2 = Conv2d (mid_channels div 16) mid_channels 1 1 0 True 1,
               ChannelGate_gate_activation = Some Sigmoid\<rparr>,
            OSBlock_conv3 = \<lparr>Conv1x1Linear_conv = Conv2d mid_channels out_channels 1 1 0 False 1,
                             Conv1x1Linear_bn = BatchNorm2d out_channels\<rparr>,
            OSBlock_downsample =
              (if in_channels \<noteq> out_channels
               then Some \<lparr>Conv1x1Linear_conv = Conv2d in_channels out_channels 1 1 0 False 1,
                          Conv1x1Linear_bn = BatchNorm2d out_channels\<rparr>
               else None),
            OSBlock_IN = (if IN then Some (InstanceNorm2d out_channels True) else None)\<rparr>)"
  by (simp add: OSBlock_init_def py_floordiv_def rbind_simps Let_def ChannelGate_init_known
      Conv1x1_init_eq Conv1x1Linear_init_eq LightConv3x3_init_eq Sequential_init_replicate)

lemma OSBlock_init_Inr:
  assumes "OSBlock_init in_channels out_channels IN bottleneck_reduction = Inr b"
  obtains conv1 light gate conv3 d where
    "bottleneck_reduction \<noteq> 0" "out_channels div bottleneck_reduction \<noteq> 0"
    "Conv1x1_init in_channels (out_channels div bottleneck_reduction) 1 1 = Inr conv1"
    "LightConv3x3_init (out_channels div bottleneck_reduction)
       (out_channels div bottleneck_reduction) = Inr light"
    "ChannelGate_init (out_channels div bottleneck_reduction) None False ''sigmoid'' 16 False =
       Inr gate"
    "Conv1x1Linear_init (out_channels div bottleneck_reduction) out_channels 1 = Inr conv3"
    "Conv1x1Linear_init in_channels out_channels 1 = Inr d"
    "b = \<lparr>OSBlock_conv1 = conv1,
          OSBlock_conv2a = light,
          OSBlock_conv2b = replicate 2 light,
          OSBlock_conv2c = replicate 3 light,
          OSBlock_conv2d = replicate 4 light,
          OSBlock_gate = gate,
          OSBlock_conv3 = conv3,
          OSBlock_downsample = (if in_channels \<noteq> out_channels then Some d else None),
          OSBlock_IN = (if IN then Some (InstanceNorm2d out_channels True) else None)\<rparr>"
proof -
  from assms have nz: "bottleneck_reduction \<noteq> 0" "out_channels div bottleneck_reduction \<noteq> 0"
    by (auto simp add: OSBlock_init_eq split: if_splits)
  obtain conv1 where conv1:
    "Conv1x1_init in_channels (out_channels div bottleneck_reduction) 1 1 = Inr conv1"
    by (simp add: Conv1x1_init_eq)
  obtain light where light:
    "LightConv3x3_init (out_channels div bottleneck_reduction)
       (out_channels div bottleneck_reduction) = Inr light"
    using nz by (simp add: LightConv3x3_init_eq)
  obtain gate where gate:
    "ChannelGate_init (out_channels div bottleneck_reduction) None False ''sigmoid'' 16 False =
       Inr gate"
    by (simp add: ChannelGate_init_known)
  obtain conv3 where conv3:
    "Conv1x1Linear_init (out_channels div bottleneck_reduction) out_channels 1 = Inr conv3"
    by (simp add: Conv1x1Linear_init_eq)
  obtain d where d: "Conv1x1Linear_init in_channels out_channels 1 = Inr d"
    by (simp add: Conv1x1Linear_init_eq)
  have "OSBlock_init in_channels out_channels IN bottleneck_reduction =
    Inr \<lparr>OSBlock_conv1 = conv1,
          OSBlock_conv2a = light,
          OSBlock_conv2b = replicate 2 light,
          OSBlock_conv2c = replicate 3 light,
          OSBlock_conv2d = replicate 4 light,
          OSBlock_gate = gate,
          OSBlock_conv3 = conv3,
          OSBlock_downsample = (if in_channels \<noteq> out_channels then Some d else None),
          OSBlock_IN = (if IN then Some (InstanceNorm2d out_channels True) else None)\<rparr>"
    unfolding OSBlock_init_def py_floordiv_def
    using nz conv1 light gate conv3 d by (simp add: rbind_simps Sequential_init_replicate)
  with assms have "b = \<lparr>OSBlock_conv1 = conv1,
          OSBlock_conv2a = light,
          OSBlock_conv2b = replicate 2 light,
          OSBlock_conv2c = replicate 3 light,
          OSBlock_conv2d = replicate 4 light,
          OSBlock_gate = gate,
          OSBlock_conv3 = conv3,
          OSBlock_downsample = (if in_channels \<noteq> out_channels then Some d else None),
          OSBlock_IN = (if IN then Some (InstanceNorm2d out_channels True) else None)\<rparr>"
    by simp
  with nz conv1 light gate conv3 d show thesis
    by (rule that)
qed

text \<open>
  With \<^verbatim>\<open>mid_channels = 0\<close> the constructor raises: \<^verbatim>\<open>OSBlock(64, 3)\<close> builds
  \<^verbatim>\<open>Conv1x1(64, 0)\<close> and then fails in \<^verbatim>\<open>LightConv3x3(0, 0)\<close>, whose depthwise
  convolution has \<^verbatim>\<open>groups=0\<close>.
\<close>

lemma OSBlock_init_zero_mid_channels:
  assumes "bottleneck_reduction \<noteq> 0" "out_channels < bottleneck_reduction"
  shows "OSBlock_init in_channels out_channels IN bottleneck_reduction = Inl ValueError"
  using assms by (simp add: OSBlock_init_eq)

lemma OSBlock_init_64_3: "OSBlock_init 64 3 False 4 = Inl ValueError"
  by (simp add: OSBlock_init_zero_mid_channels)

lemma floordiv_exact_iff: "(a :: nat) div b * b = a \<longleftrightarrow> b dvd a"
  by (metis dvd_div_mult_self dvd_triv_right)

text \<open>
  Claim C3, as amended. \<^verbatim>\<open>OSBlock.__init__\<close> makes no divisibility check:
  \<^verbatim>\<open>mid_channels\<close> is the floor quotient \<^verbatim>\<open>out_channels // bottleneck_reduction\<close>, and a
  non-exact division is not an error. On every block that is constructed,
  \<open>bottleneck_reduction\<close> is not 0, \<open>mid_channels\<close> is that floor quotient, and it is the
  exact quotient precisely when \<open>bottleneck_reduction\<close> divides \<open>out_channels\<close>. And
  the block is constructed, whether or not the division is exact, whenever every module
  of it gets positive channel counts: \<open>in_channels\<close> and \<open>bottleneck_reduction\<close>
  positive and \<open>out_channels\<close> at least \<open>16 * bottleneck_reduction\<close>, the 16 being the
  reduction of the gate, whose hidden width is \<^verbatim>\<open>mid_channels // 16\<close>.
\<close>

theorem OSBlock_init_mid_channels:
  "(\<forall>b. OSBlock_init in_channels out_channels IN bottleneck_reduction = Inr b \<longrightarrow>
      bottleneck_reduction \<noteq> 0 \<and>
      OSBlock_mid_channels b = out_channels div bottleneck_reduction \<and>
      (OSBlock_mid_channels b * bottleneck_reduction = out_channels
         \<longleftrightarrow> bottleneck_reduction dvd out_channels)) \<and>
   (0 < in_channels \<and> 0 < bottleneck_reduction \<and> 16 * bottleneck_reduction \<le> out_channels \<longrightarrow>
      (\<exists>b. OSBlock_init in_channels out_channels IN bottleneck_reduction = Inr b))"
proof (intro conjI allI impI)
  fix b
  assume b: "OSBlock_init in_channels out_channels IN bottleneck_reduction = Inr b"
  then show "bottleneck_reduction \<noteq> 0"
    by (auto simp add: OSBlock_init_eq split: if_splits)
  from b show mid: "OSBlock_mid_channels b = out_channels div bottleneck_reduction"
    by (auto simp add: OSBlock_init_eq Let_def OSBlock_mid_channels_def Conv2d_out_channels_def
        split: if_splits)
  show "OSBlock_mid_channels b * bottleneck_reduction = out_channels
         \<longleftrightarrow> bottleneck_reduction dvd out_channels"
    by (simp add: mid floordiv_exact_iff)
next
  assume pos: "0 < in_channels \<and> 0 < bottleneck_reduction \<and>
    16 * bottleneck_reduction \<le> out_channels"
  then have "bottleneck_reduction * 1 \<le> out_channels"
    by simp
  with pos have "1 \<le> out_channels div bottleneck_reduction"
    by (metis less_eq_div_iff_mult_less_eq mult.commute)
  with pos show "\<exists>b. OSBlock_init in_channels out_channels IN bottleneck_reduction = Inr b"
    by (simp add: OSBlock_init_eq Let_def)
qed

text \<open>
  The theorem at \<^verbatim>\<open>OSBlock(64, 256)\<close>, where the division is exact, and at
  \<^verbatim>\<open>OSBlock(256, 386)\<close>, where it is not.
\<close>

theorem OSBlock_init_mid_channels_witness:
  "(\<exists>b. OSBlock_init 64 256 False 4 = Inr b \<and> OSBlock_mid_channels b = 64 \<and>
        OSBlock_mid_channels b * 4 = 256) \<and>
   (\<exists>b. OSBlock_init 256 386 False 4 = Inr b \<and> OSBlock_mid_channels b = 96 \<and>
        OSBlock_mid_channels b * 4 \<noteq> 386)"
proof -
  have "\<exists>b. OSBlock_init 64 256 False 4 = Inr b \<and> OSBlock_mid_channels b = 64 \<and>
        OSBlock_mid_channels b * 4 = 256"
    using OSBlock_init_mid_channels [of 64 256 False 4] by auto
  moreover have "\<exists>b. OSBlock_init 256 386 False 4 = Inr b \<and> OSBlock_mid_channels b = 96 \<and>
        OSBlock_mid_channels b * 4 \<noteq> 386"
    using OSBlock_init_mid_channels [of 256 386 False 4] by auto
  ultimately show ?thesis
    by simp
qed

text \<open>
  Claim C3 as stated fails: 4 does not divide 258, and \<^verbatim>\<open>OSBlock(64, 258)\<close> is
  constructed without error, with \<open>mid_channels = 64\<close>.
\<close>

theorem OSBlock_init_inexact_division:
  "\<not> 4 dvd (258 :: nat) \<and>
   rbind (OSBlock_init 64 258 False 4) (\<lambda>b. Inr (OSBlock_mid_channels b)) = Inr 64"
  by (simp add: OSBlock_init_eq Let_def OSBlock_mid_channels_def Conv2d_out_channels_def
      rbind_simps)

section \<open>The forward pass of the block\<close>

lemma OSBlock_forward_snd:
  "snd (OSBlock_forward T p b x) =
     gated_sum T (p @ ''gate.'', p @ ''gate.'', p @ ''gate.'', p @ ''gate.'') (OSBlock_gate b)
       (OSBlock_branches T p b x)"
  by (simp add: OSBlock_forward_def OSBlock_locals_def OSBlock_branches_def gated_sum_def Let_def)

lemma OSBlock_branches_eq:
  "OSBlock_branches T p b x =
     (let x1 = Conv1x1_forward T (p @ ''conv1.'') (OSBlock_conv1 b) x
      in (LightConv3x3_forward T (p @ ''conv2a.'') (OSBlock_conv2a b) x1,
          Sequential_forward T (p @ ''conv2b.'') 0 (OSBlock_conv2b b) x1,
          Sequential_forward T (p @ ''conv2c.'') 0 (OSBlock_conv2c b) x1,
          Sequential_forward T (p @ ''conv2d.'') 0 (OSBlock_conv2d b) x1))"
  by (simp add: OSBlock_branches_def OSBlock_locals_def Let_def)

lemma OSBlock_forward_fst:
  "fst (OSBlock_forward T p b x) =
     F_relu T (case OSBlock_IN b of None \<Rightarrow> OSBlock_residual_sum T p b x
               | Some n \<Rightarrow> nn_call T (p @ ''IN'') n (OSBlock_residual_sum T p b x))"
  by (simp add: OSBlock_forward_def OSBlock_locals_def OSBlock_residual_sum_def Let_def
      split: option.split)

lemma OSBlock_residual_sum_eq:
  "OSBlock_residual_sum T p b x =
     torch_add T
       (Conv1x1Linear_forward T (p @ ''conv3.'') (OSBlock_conv3 b) (snd (OSBlock_forward T p b x)))
       (case OSBlock_downsample b of None \<Rightarrow> x
        | Some d \<Rightarrow> Conv1x1Linear_forward T (p @ ''downsample.'') d x)"
  by (simp add: OSBlock_forward_def OSBlock_locals_def OSBlock_residual_sum_def Let_def)

lemma Call_neq_arg: "Call n l t \<noteq> t"
  by (induction t) auto

lemma ChannelGate_forward_sym_inj:
  "ChannelGate_forward sym_torch p g x = ChannelGate_forward sym_torch q g x \<Longrightarrow> p = q"
  by (auto simp add: ChannelGate_forward_def sym_torch_def Let_def split: option.splits if_splits)

lemma gated_sum_sym_paths:
  assumes "gated_sum sym_torch (pa, pb, pc, pd) g xs = gated_sum sym_torch (q, q, q, q) g xs"
  shows "pa = q \<and> pb = q \<and> pc = q \<and> pd = q"
proof -
  obtain xa xb xc xd where xs: "xs = (xa, xb, xc, xd)"
    by (cases xs) auto
  from assms have
    "ChannelGate_forward sym_torch pa g xa = ChannelGate_forward sym_torch q g xa"
    "ChannelGate_forward sym_torch pb g xb = ChannelGate_forward sym_torch q g xb"
    "ChannelGate_forward sym_torch pc g xc = ChannelGate_forward sym_torch q g xc"
    "ChannelGate_forward sym_torch pd g xd = ChannelGate_forward sym_torch q g xd"
    unfolding xs gated_sum_def by (simp_all add: sym_torch_def)
  then show ?thesis
    by (blast dest: ChannelGate_forward_sym_inj)
qed

text \<open>
  Claim C2, as amended. The four branch outputs are each gated and the four gated results
  are added (a sum, not a concatenation), but the block has a single ChannelGate: the same
  module \<^verbatim>\<open>self.gate\<close>, with the same parameters (those under the path \<^verbatim>\<open>gate.\<close>), is
  applied to all four branches. The branches are the outputs of 1, 2, 3 and 4 stacked
  LightConv3x3 layers on the bottlenecked input.
\<close>

theorem OSBlock_fusion_one_gate:
  "snd (OSBlock_forward T p b x) =
     gated_sum T (p @ ''gate.'', p @ ''gate.'', p @ ''gate.'', p @ ''gate.'') (OSBlock_gate b)
       (OSBlock_branches T p b x) \<and>
   OSBlock_branches T p b x =
     (let x1 = Conv1x1_forward T (p @ ''conv1.'') (OSBlock_conv1 b) x
      in (LightConv3x3_forward T (p @ ''conv2a.'') (OSBlock_conv2a b) x1,
          Sequential_forward T (p @ ''conv2b.'') 0 (OSBlock_conv2b b) x1,
          Sequential_forward T (p @ ''conv2c.'') 0 (OSBlock_conv2c b) x1,
          Sequential_forward T (p @ ''conv2d.'') 0 (OSBlock_conv2d b) x1))"
proof
  show "snd (OSBlock_forward T p b x) =
     gated_sum T (p @ ''gate.'', p @ ''gate.'', p @ ''gate.'', p @ ''gate.'') (OSBlock_gate b)
       (OSBlock_branches T p b x)"
    by (rule OSBlock_forward_snd)
qed (rule OSBlock_branches_eq)

text \<open>
  The theorem at \<^verbatim>\<open>OSBlock(64, 256)\<close> registered as \<^verbatim>\<open>conv2_0\<close>: every gate call in the
  graph of \<open>x2\<close> is a call of the module at \<^verbatim>\<open>conv2_0.gate\<close>.
\<close>

theorem OSBlock_fusion_one_gate_witness:
  "\<exists>b. OSBlock_init 64 256 False 4 = Inr b \<and>
     snd (OSBlock_forward sym_torch ''conv2_0.'' b (Input ''x'')) =
       gated_sum sym_torch
         (''conv2_0.gate.'', ''conv2_0.gate.'', ''conv2_0.gate.'', ''conv2_0.gate.'')
         (OSBlock_gate b) (OSBlock_branches sym_torch ''conv2_0.'' b (Input ''x''))"
proof -
  obtain b where b: "OSBlock_init 64 256 False 4 = Inr b"
    by (simp add: OSBlock_init_eq Let_def)
  show ?thesis
    using b OSBlock_fusion_one_gate [of sym_torch "''conv2_0.''" b "Input ''x''"] by simp
qed

text \<open>
  Claim C2 as stated fails. For the block \<^verbatim>\<open>OSBlock(64, 256)\<close> registered as
  \<^verbatim>\<open>conv2_0\<close>, no choice of four pairwise different parameter paths makes the gated sum
  with one parameter set per branch equal to what the block computes, already as
  computation graphs on the input \<open>x\<close>.
\<close>

theorem OSBlock_gates_not_independent:
  "\<not> (\<exists>pa pb pc pd. distinct [pa, pb, pc, pd] \<and>
        rbind (OSBlock_init 64 256 False 4) (\<lambda>b.
          Inr (snd (OSBlock_forward sym_torch ''conv2_0.'' b (Input ''x'')) =
               gated_sum sym_torch (pa, pb, pc, pd) (OSBlock_gate b)
                 (OSBlock_branches sym_torch ''conv2_0.'' b (Input ''x'')))) = Inr True)"
proof
  assume "\<exists>pa pb pc pd. distinct [pa, pb, pc, pd] \<and>
        rbind (OSBlock_init 64 256 False 4) (\<lambda>b.
          Inr (snd (OSBlock_forward sym_torch ''conv2_0.'' b (Input ''x'')) =
               gated_sum sym_torch (pa, pb, pc, pd) (OSBlock_gate b)
                 (OSBlock_branches sym_torch ''conv2_0.'' b (Input ''x'')))) = Inr True"
  then obtain pa pb pc pd where dist: "distinct [pa, pb, pc, pd]"
    and r: "rbind (OSBlock_init 64 256 False 4) (\<lambda>b.
          Inr (snd (OSBlock_forward sym_torch ''conv2_0.'' b (Input ''x'')) =
               gated_sum sym_torch (pa, pb, pc, pd) (OSBlock_gate b)
                 (OSBlock_branches sym_torch ''conv2_0.'' b (Input ''x'')))) = Inr True"
    by blast
  obtain b where b: "OSBlock_init 64 256 False 4 = Inr b"
    by (simp add: OSBlock_init_eq Let_def)
  from r have "snd (OSBlock_forward sym_torch ''conv2_0.'' b (Input ''x'')) =
               gated_sum sym_torch (pa, pb, pc, pd) (OSBlock_gate b)
                 (OSBlock_branches sym_torch ''conv2_0.'' b (Input ''x''))"
    unfolding b rbind_simps by simp
  then have "gated_sum sym_torch (pa, pb, pc, pd) (OSBlock_gate b)
                 (OSBlock_branches sym_torch ''conv2_0.'' b (Input ''x'')) =
             gated_sum sym_torch (''conv2_0.'' @ ''gate.'', ''conv2_0.'' @ ''gate.'',
                 ''conv2_0.'' @ ''gate.'', ''conv2_0.'' @ ''gate.'') (OSBlock_gate b)
                 (OSBlock_branches sym_torch ''conv2_0.'' b (Input ''x''))"
    by (simp only: OSBlock_forward_snd)
  then have "pa = pb"
    using gated_sum_sym_paths by blast
  with dist show False by simp
qed

text \<open>
  Claim C4, as amended. The final ReLU is applied after the optional instance
  normalisation: with \<^verbatim>\<open>IN\<close> configured the block returns ReLU of the normalised residual
  sum, and only without it ReLU of the residual sum \<^verbatim>\<open>x3 + identity\<close> itself. The second
  output is \<open>x2\<close>, the tensor that \<^verbatim>\<open>conv3\<close> projects to \<open>x3\<close>; \<open>identity\<close> is the input,
  or its projection by \<^verbatim>\<open>downsample\<close> when there is one.
\<close>

theorem OSBlock_forward_relu_after_IN:
  "fst (OSBlock_forward T p b x) =
     F_relu T (case OSBlock_IN b of None \<Rightarrow> OSBlock_residual_sum T p b x
               | Some n \<Rightarrow> nn_call T (p @ ''IN'') n (OSBlock_residual_sum T p b x)) \<and>
   OSBlock_residual_sum T p b x =
     torch_add T
       (Conv1x1Linear_forward T (p @ ''conv3.'') (OSBlock_conv3 b) (snd (OSBlock_forward T p b x)))
       (case OSBlock_downsample b of None \<Rightarrow> x
        | Some d \<Rightarrow> Conv1x1Linear_forward T (p @ ''downsample.'') d x)"
proof
  show "fst (OSBlock_forward T p b x) =
     F_relu T (case OSBlock_IN b of None \<Rightarrow> OSBlock_residual_sum T p b x
               | Some n \<Rightarrow> nn_call T (p @ ''IN'') n (OSBlock_residual_sum T p b x))"
    by (rule OSBlock_forward_fst)
qed (rule OSBlock_residual_sum_eq)

text \<open>
  The theorem at \<^verbatim>\<open>OSBlock(256, 256)\<close> without and with \<^verbatim>\<open>IN\<close>: the residual is the
  input itself, and the normalisation, when present, sits between the sum and the ReLU.
\<close>

theorem OSBlock_forward_relu_after_IN_witness:
  "(\<exists>b. OSBlock_init 256 256 False 4 = Inr b \<and>
        fst (OSBlock_forward sym_torch ''conv2_1.'' b (Input ''x'')) =
          Relu (Add (Call ''conv2_1.conv3.bn'' (BatchNorm2d 256)
                      (Call ''conv2_1.conv3.conv'' (Conv2d 64 256 1 1 0 False 1)
                        (snd (OSBlock_forward sym_torch ''conv2_1.'' b (Input ''x'')))))
                    (Input ''x''))) \<and>
   (\<exists>b. OSBlock_init 256 256 True 4 = Inr b \<and>
        fst (OSBlock_forward sym_torch ''conv2_1.'' b (Input ''x'')) =
          Relu (Call ''conv2_1.IN'' (InstanceNorm2d 256 True)
                 (Add (Call ''conv2_1.conv3.bn'' (BatchNorm2d 256)
                        (Call ''conv2_1.conv3.conv'' (Conv2d 64 256 1 1 0 False 1)
                          (snd (OSBlock_forward sym_torch ''conv2_1.'' b (Input ''x'')))))
                      (Input ''x''))))"
proof -
  have "\<exists>b. OSBlock_init 256 256 IN 4 = Inr b \<and>
        fst (OSBlock_forward sym_torch ''conv2_1.'' b (Input ''x'')) =
          Relu ((if IN then Call ''conv2_1.IN'' (InstanceNorm2d 256 True) else (\<lambda>t. t))
                 (Add (Call ''conv2_1.conv3.bn'' (BatchNorm2d 256)
                        (Call ''conv2_1.conv3.conv'' (Conv2d 64 256 1 1 0 False 1)
                          (snd (OSBlock_forward sym_torch ''conv2_1.'' b (Input ''x'')))))
                      (Input ''x'')))" for IN
  proof -
    obtain b where b: "OSBlock_init 256 256 IN 4 = Inr b"
      by (simp add: OSBlock_init_eq Let_def)
    then have fields: "OSBlock_IN b = (if IN then Some (InstanceNorm2d 256 True) else None)"
      "OSBlock_downsample b = None"
      "OSBlock_conv3 b = \<lparr>Conv1x1Linear_conv = Conv2d 64 256 1 1 0 False 1,
                          Conv1x1Linear_bn = BatchNorm2d 256\<rparr>"
      by (auto simp add: OSBlock_init_eq Let_def)
    show ?thesis
      using b OSBlock_forward_relu_after_IN [of sym_torch "''conv2_1.''" b "Input ''x''"]
      by (simp add: fields Conv1x1Linear_forward_def sym_torch_def)
  qed
  from this [of False] this [of True] show ?thesis by simp
qed

text \<open>
  Claim C4 as stated fails. For \<^verbatim>\<open>OSBlock(64, 256, IN=True)\<close> the first output is not
  ReLU of the residual sum before the normalisation: in the computation graph the argument
  of the ReLU is the InstanceNorm2d call.
\<close>

theorem OSBlock_relu_not_before_IN:
  "rbind (OSBlock_init 64 256 True 4) (\<lambda>b.
     Inr (fst (OSBlock_forward sym_torch ''conv2_0.'' b (Input ''x'')) =
          F_relu sym_torch (OSBlock_residual_sum sym_torch ''conv2_0.'' b (Input ''x'')),
          fst (OSBlock_forward sym_torch ''conv2_0.'' b (Input ''x'')) =
          Relu (Call ''conv2_0.IN'' (InstanceNorm2d 256 True)
            (OSBlock_residual_sum sym_torch ''conv2_0.'' b (Input ''x''))))) = Inr (False, True)"
  by (simp add: OSBlock_init_eq rbind_simps Let_def OSBlock_forward_fst Call_neq_arg sym_torch_def)

section \<open>Construction of the network\<close>

lemma OSNet_init_Inr:
  assumes "OSNet_init n blocks layers channels fd loss IN = Inr net"
  obtains b20 b21 b30 b31 b40 b41 c0 c3 conv1 conv2_2 conv3_2 conv_a conv_b conv_c conv5 where
    "py_index channels 0 = Inr c0" "py_index channels 3 = Inr c3"
    "ConvLayer_init 3 c0 7 2 3 1 IN = Inr conv1"
    "Conv1x1_init 256 256 1 1 = Inr conv2_2" "Conv1x1_init 384 384 1 1 = Inr conv3_2"
    "Conv1x1_init 64 64 1 1 = Inr conv_a" "Conv1x1_init 96 96 1 1 = Inr conv_b"
    "Conv1x1_init 128 128 1 1 = Inr conv_c" "Conv1x1_init c3 c3 1 1 = Inr conv5"
    "OSBlock_init 64 256 IN 4 = Inr b20" "OSBlock_init 256 256 IN 4 = Inr b21"
    "OSBlock_init 256 384 IN 4 = Inr b30" "OSBlock_init 384 384 IN 4 = Inr b31"
    "OSBlock_init 384 512 IN 4 = Inr b40" "OSBlock_init 512 512 IN 4 = Inr b41"
    "net = \<lparr>OSNet_loss = loss,
               OSNet_training = True,
               OSNet_conv1 = conv1,
               OSNet_maxpool = MaxPool2d 3 2 1,
               OSNet_conv2_0 = b20,
               OSNet_conv2_1 = b21,
               OSNet_conv2_2 = conv2_2,
               OSNet_conv2_3 = AvgPool2d 2 2,
               OSNet_conv3_0 = b30,
               OSNet_conv3_1 = b31,
               OSNet_conv3_2 = conv3_2,
               OSNet_conv3_3 = AvgPool2d 2 2,
               OSNet_conv4_0 = b40,
               OSNet_conv4_1 = b41,
               OSNet_conv_a = conv_a,
               OSNet_conv_b = conv_b,
               OSNet_conv_c = conv_c,
               OSNet_conv5 = conv5,
               OSNet_global_avgpool = AdaptiveAvgPool2d 1,
               OSNet_classifier = Linear 512 n,
               OSNet_classifier_a = Linear 64 n,
               OSNet_classifier_b = Linear 96 n,
               OSNet_classifier_c = Linear 128 n,
               OSNet_bn = BatchNorm1d 512,
               OSNet_bn_a = BatchNorm1d 64,
               OSNet_bn_b = BatchNorm1d 96,
               OSNet_bn_c = BatchNorm1d 128\<rparr>"
  using assms unfolding OSNet_init_def Let_def rbind_def
  by (simp split: if_splits sum.splits)

lemma OSNet_init_heads:
  assumes "OSNet_init n blocks layers channels fd loss IN = Inr net"
  shows "OSNet_global_avgpool net = AdaptiveAvgPool2d 1"
    "OSNet_bn net = BatchNorm1d 512" "OSNet_bn_a net = BatchNorm1d 64"
    "OSNet_bn_b net = BatchNorm1d 96" "OSNet_bn_c net = BatchNorm1d 128"
    "OSNet_classifier net = Linear 512 n" "OSNet_classifier_a net = Linear 64 n"
    "OSNet_classifier_b net = Linear 96 n" "OSNet_classifier_c net = Linear 128 n"
    "OSNet_loss net = loss" "OSNet_training net"
  using assms by (auto elim!: OSNet_init_Inr)

lemma OSNet_init_structure:
  assumes "OSNet_init n blocks layers channels fd loss IN = Inr net"
  shows "OSBlock_init 64 256 IN 4 = Inr (OSNet_conv2_0 net)"
    "OSBlock_init 256 256 IN 4 = Inr (OSNet_conv2_1 net)"
    "OSBlock_init 256 384 IN 4 = Inr (OSNet_conv3_0 net)"
    "OSBlock_init 384 384 IN 4 = Inr (OSNet_conv3_1 net)"
    "OSBlock_init 384 512 IN 4 = Inr (OSNet_conv4_0 net)"
    "OSBlock_init 512 512 IN 4 = Inr (OSNet_conv4_1 net)"
    "Conv1x1_init 64 64 1 1 = Inr (OSNet_conv_a net)"
    "Conv1x1_init 96 96 1 1 = Inr (OSNet_conv_b net)"
    "Conv1x1_init 128 128 1 1 = Inr (OSNet_conv_c net)"
  using assms by (auto elim!: OSNet_init_Inr)

lemma OSNet_init_cong:
  fixes blocks :: "'b list" and layers :: "'l list"
    and blocks' :: "'c list" and layers' :: "'k list"
  assumes "length blocks = length layers" "int (length blocks) = int (length channels) - 1"
    and "length blocks' = length layers'" "int (length blocks') = int (length channels') - 1"
    and "py_index channels 0 = py_index channels' 0"
    and "py_index channels 3 = py_index channels' 3"
  shows "OSNet_init num_classes blocks layers channels feature_dim loss IN =
         OSNet_init num_classes blocks' layers' channels' feature_dim' loss IN"
  using assms by (simp add: OSNet_init_def Let_def)

text \<open>
  Claim C10. Take two choices of \<open>blocks\<close>, \<open>layers\<close> and \<open>channels\<close> (and of
  \<open>feature_dim\<close>) that both pass the two length assertions of \<^verbatim>\<open>OSNet.__init__\<close> and
  agree on \<^verbatim>\<open>channels[0]\<close> and on \<^verbatim>\<open>channels[3]\<close> (on the value, or on the IndexError
  of a list with no such entry), with the same \<open>num_classes\<close>, \<open>loss\<close> and \<open>IN\<close>. Then
  the two constructions have the same result; when they succeed the two networks are the
  same module tree and \<^verbatim>\<open>forward\<close> is the same function of its input, under every
  substrate. The six blocks are \<^verbatim>\<open>OSBlock(64, 256)\<close>, \<^verbatim>\<open>OSBlock(256, 256)\<close>,
  \<^verbatim>\<open>OSBlock(256, 384)\<close>, \<^verbatim>\<open>OSBlock(384, 384)\<close>, \<^verbatim>\<open>OSBlock(384, 512)\<close> and
  \<^verbatim>\<open>OSBlock(512, 512)\<close>, and the auxiliary convolutions have the widths 64, 96 and 128,
  whatever the arguments are.
\<close>

theorem OSNet_init_noninterference:
  fixes blocks :: "'b list" and layers :: "'l list"
    and blocks' :: "'c list" and layers' :: "'k list"
  assumes "length blocks = length layers" "int (length blocks) = int (length channels) - 1"
    and "length blocks' = length layers'" "int (length blocks') = int (length channels') - 1"
    and "py_index channels 0 = py_index channels' 0"
    and "py_index channels 3 = py_index channels' 3"
  shows "OSNet_init num_classes blocks layers channels feature_dim loss IN =
           OSNet_init num_classes blocks' layers' channels' feature_dim' loss IN \<and>
         (\<forall>net net'.
            OSNet_init num_classes blocks layers channels feature_dim loss IN = Inr net \<and>
            OSNet_init num_classes blocks' layers' channels' feature_dim' loss IN = Inr net' \<longrightarrow>
            net = net' \<and>
            (\<forall>x return_featuremaps.
               OSNet_forward T net x return_featuremaps =
               OSNet_forward T net' x return_featuremaps) \<and>
            OSBlock_init 64 256 IN 4 = Inr (OSNet_conv2_0 net) \<and>
            OSBlock_init 256 256 IN 4 = Inr (OSNet_conv2_1 net) \<and>
            OSBlock_init 256 384 IN 4 = Inr (OSNet_conv3_0 net) \<and>
            OSBlock_init 384 384 IN 4 = Inr (OSNet_conv3_1 net) \<and>
            OSBlock_init 384 512 IN 4 = Inr (OSNet_conv4_0 net) \<and>
            OSBlock_init 512 512 IN 4 = Inr (OSNet_conv4_1 net) \<and>
            Conv1x1_init 64 64 1 1 = Inr (OSNet_conv_a net) \<and>
            Conv1x1_init 96 96 1 1 = Inr (OSNet_conv_b net) \<and>
            Conv1x1_init 128 128 1 1 = Inr (OSNet_conv_c net))"
proof (intro conjI allI impI)
  show eq: "OSNet_init num_classes blocks layers channels feature_dim loss IN =
           OSNet_init num_classes blocks' layers' channels' feature_dim' loss IN"
    using assms by (rule OSNet_init_cong)
  fix net net'
  assume both: "OSNet_init num_classes blocks layers channels feature_dim loss IN = Inr net \<and>
            OSNet_init num_classes blocks' layers' channels' feature_dim' loss IN = Inr net'"
  then have net: "OSNet_init num_classes blocks layers channels feature_dim loss IN = Inr net"
    by simp
  from both have "OSNet_init num_classes blocks' layers' channels' feature_dim' loss IN = Inr net'"
    by simp
  with net eq have "Inr net = (Inr net' :: error + OSNet)"
    by (simp only:)
  then show same: "net = net'" by simp
  show "OSNet_forward T net x return_featuremaps = OSNet_forward T net' x return_featuremaps"
    for x return_featuremaps
    by (simp add: same)
  show "OSBlock_init 64 256 IN 4 = Inr (OSNet_conv2_0 net)"
    "OSBlock_init 256 256 IN 4 = Inr (OSNet_conv2_1 net)"
    "OSBlock_init 256 384 IN 4 = Inr (OSNet_conv3_0 net)"
    "OSBlock_init 384 384 IN 4 = Inr (OSNet_conv3_1 net)"
    "OSBlock_init 384 512 IN 4 = Inr (OSNet_conv4_0 net)"
    "OSBlock_init 512 512 IN 4 = Inr (OSNet_conv4_1 net)"
    "Conv1x1_init 64 64 1 1 = Inr (OSNet_conv_a net)"
    "Conv1x1_init 96 96 1 1 = Inr (OSNet_conv_b net)"
    "Conv1x1_init 128 128 1 1 = Inr (OSNet_conv_c net)"
    by (rule OSNet_init_structure [OF net])+
qed

text \<open>
  The theorem at the arguments of \<^verbatim>\<open>pfh_osnet\<close> against four blocks of another type,
  other layer entries, a five-entry channel list with the same entries 0 and 3, and another
  \<open>feature_dim\<close>.
\<close>

theorem OSNet_init_noninterference_witness:
  "OSNet_init 751 [OSBlock_class, OSBlock_class, OSBlock_class] [2, 2, 2 :: nat]
     [64, 256, 384, 512] 512 ''triplet'' False =
   OSNet_init 751 [(), (), (), ()] [True, False, True, False]
     [64, 16, 32, 512, 1024] 128 ''triplet'' False \<and>
   (\<exists>net. OSNet_init 751 [(), (), (), ()] [True, False, True, False]
            [64, 16, 32, 512, 1024] 128 ''triplet'' False = Inr net \<and>
          Conv1x1_init 64 64 1 1 = Inr (OSNet_conv_a net) \<and>
          Conv1x1_init 96 96 1 1 = Inr (OSNet_conv_b net) \<and>
          Conv1x1_init 128 128 1 1 = Inr (OSNet_conv_c net))"
proof -
  have idx: "py_index [64, 256, 384, 512 :: nat] 0 = py_index [64, 16, 32, 512, 1024] 0"
    "py_index [64, 256, 384, 512 :: nat] 3 = py_index [64, 16, 32, 512, 1024] 3"
    by (simp_all add: py_index_def)
  have len: "length [OSBlock_class, OSBlock_class, OSBlock_class] = length [2, 2, 2 :: nat]"
    "int (length [OSBlock_class, OSBlock_class, OSBlock_class]) =
       int (length [64, 256, 384, 512 :: nat]) - 1"
    "length [(), (), (), ()] = length [True, False, True, False]"
    "int (length [(), (), (), ()]) = int (length [64, 16, 32, 512, 1024 :: nat]) - 1"
    by simp_all
  note inst = OSNet_init_noninterference [OF len idx, of 751 512 "''triplet''" False 128 sym_torch]
  from inst have eq: "OSNet_init 751 [OSBlock_class, OSBlock_class, OSBlock_class] [2, 2, 2 :: nat]
     [64, 256, 384, 512] 512 ''triplet'' False =
   OSNet_init 751 [(), (), (), ()] [True, False, True, False]
     [64, 16, 32, 512, 1024] 128 ''triplet'' False"
    by (rule conjunct1)
  obtain net where net: "OSNet_init 751 [(), (), (), ()] [True, False, True, False]
            [64, 16, 32, 512, 1024] 128 ''triplet'' False = Inr net"
    by (simp add: OSNet_init_def OSBlock_init_eq ConvLayer_init_eq Conv1x1_init_eq py_index_def
        rbind_simps Let_def)
  have both: "OSNet_init 751 [OSBlock_class, OSBlock_class, OSBlock_class] [2, 2, 2 :: nat]
        [64, 256, 384, 512] 512 ''triplet'' False = Inr net \<and>
      OSNet_init 751 [(), (), (), ()] [True, False, True, False]
        [64, 16, 32, 512, 1024] 128 ''triplet'' False = Inr net"
    using eq net by simp
  have c: "Conv1x1_init 64 64 1 1 = Inr (OSNet_conv_a net)"
    "Conv1x1_init 96 96 1 1 = Inr (OSNet_conv_b net)"
    "Conv1x1_init 128 128 1 1 = Inr (OSNet_conv_c net)"
    using inst [THEN conjunct2, rule_format, OF both] by (simp_all only:)
  show ?thesis
  proof (intro conjI exI [of _ net])
    show "OSNet_init 751 [OSBlock_class, OSBlock_class, OSBlock_class] [2, 2, 2 :: nat]
        [64, 256, 384, 512] 512 ''triplet'' False =
      OSNet_init 751 [(), (), (), ()] [True, False, True, False]
        [64, 16, 32, 512, 1024] 128 ''triplet'' False"
      by (rule eq)
  qed (rule net c)+
qed

section \<open>The stages of the forward pass\<close>

lemma OSNet_forward_eval:
  "\<not> OSNet_training net \<Longrightarrow>
   OSNet_forward T net x False =
     Inr (Descriptor (torch_cat T (map (F_normalize T) (OSNet_normed T net x))))"
  by (simp add: OSNet_forward_def OSNet_normed_def OSNet_pooled_def OSNet_heads_def Let_def
      split: prod.split)

lemma OSNet_forward_train:
  "OSNet_training net \<Longrightarrow>
   OSNet_forward T net x False =
     (if OSNet_loss net = ''softmax'' then Inr (Logits (OSNet_logits T net x))
      else if OSNet_loss net = ''triplet''
        then Inr (LogitsFeatures (OSNet_logits T net x) (OSNet_pooled T net x))
      else Inl (KeyError (''Unsupported loss: '' @ OSNet_loss net)))"
  by (simp add: OSNet_forward_def OSNet_logits_def OSNet_classifiers_def OSNet_normed_def
      OSNet_pooled_def OSNet_heads_def Let_def split: prod.split)

section \<open>Features do not depend on the per-head normalisation\<close>

lemma not_head_path: "p \<noteq> [] \<Longrightarrow> hd p \<noteq> CHR ''b'' \<Longrightarrow> p @ q \<notin> head_paths"
  by (cases p) (auto simp add: head_paths_def)

lemma same_off_call:
  "same_off head_paths T T' \<Longrightarrow> p \<noteq> [] \<Longrightarrow> hd p \<noteq> CHR ''b'' \<Longrightarrow>
   nn_call T' (p @ q) l t = nn_call T (p @ q) l t"
  using not_head_path by (auto simp add: same_off_def)

lemma same_off_call0:
  "same_off head_paths T T' \<Longrightarrow> p \<noteq> [] \<Longrightarrow> hd p \<noteq> CHR ''b'' \<Longrightarrow>
   nn_call T' p l t = nn_call T p l t"
  using same_off_call [of T T' p "[]"] by simp

lemma same_off_ConvLayer:
  "same_off head_paths T T' \<Longrightarrow> p \<noteq> [] \<Longrightarrow> hd p \<noteq> CHR ''b'' \<Longrightarrow>
   ConvLayer_forward T' p m = ConvLayer_forward T p m"
  by (rule ext) (simp add: ConvLayer_forward_def same_off_call)

lemma same_off_Conv1x1:
  "same_off head_paths T T' \<Longrightarrow> p \<noteq> [] \<Longrightarrow> hd p \<noteq> CHR ''b'' \<Longrightarrow>
   Conv1x1_forward T' p m = Conv1x1_forward T p m"
  by (rule ext) (simp add: Conv1x1_forward_def same_off_call)

lemma same_off_Conv1x1Linear:
  "same_off head_paths T T' \<Longrightarrow> p \<noteq> [] \<Longrightarrow> hd p \<noteq> CHR ''b'' \<Longrightarrow>
   Conv1x1Linear_forward T' p m = Conv1x1Linear_forward T p m"
  by (rule ext) (simp add: Conv1x1Linear_forward_def same_off_call)

lemma same_off_LightConv3x3:
  "same_off head_paths T T' \<Longrightarrow> p \<noteq> [] \<Longrightarrow> hd p \<noteq> CHR ''b'' \<Longrightarrow>
   LightConv3x3_forward T' p m = LightConv3x3_forward T p m"
  by (rule ext) (simp add: LightConv3x3_forward_def same_off_call)

lemma same_off_Sequential:
  "same_off head_paths T T' \<Longrightarrow> p \<noteq> [] \<Longrightarrow> hd p \<noteq> CHR ''b'' \<Longrightarrow>
   Sequential_forward T' p i ms x = Sequential_forward T p i ms x"
proof (induction ms arbitrary: i x)
  case Nil
  then show ?case by simp
next
  case (Cons m ms)
  have "LightConv3x3_forward T' (p @ str_nat i @ ''.'') m = LightConv3x3_forward T (p @ str_nat i @ ''.'') m"
    using same_off_LightConv3x3 [of T T' "p @ str_nat i @ ''.''" m] Cons.prems by simp
  with Cons show ?case by simp
qed

lemma same_off_ChannelGate:
  assumes "same_off head_paths T T'" "p \<noteq> []" "hd p \<noteq> CHR ''b''"
  shows "ChannelGate_forward T' p g = ChannelGate_forward T p g"
proof -
  have "torch_mul T' = torch_mul T"
    using assms(1) by (simp add: same_off_def)
  then show ?thesis
    by (intro ext)
       (simp add: ChannelGate_forward_def Let_def same_off_call [OF assms] cong: option.case_cong)
qed

lemma same_off_OSBlock:
  assumes "same_off head_paths T T'" "p \<noteq> []" "hd p \<noteq> CHR ''b''"
  shows "OSBlock_forward T' p b = OSBlock_forward T p b"
proof -
  have q: "p @ s \<noteq> []" "hd (p @ s) \<noteq> CHR ''b''" for s
    using assms by simp_all
  have ops: "torch_add T' = torch_add T" "F_relu T' = F_relu T"
    using assms(1) by (simp_all add: same_off_def)
  show ?thesis
    by (rule ext)
       (simp add: OSBlock_forward_def OSBlock_locals_def Let_def ops
          same_off_Conv1x1 [OF assms(1) q] same_off_LightConv3x3 [OF assms(1) q]
          same_off_Sequential [OF assms(1) q] same_off_ChannelGate [OF assms(1) q]
          same_off_Conv1x1Linear [OF assms(1) q] same_off_call [OF assms]
          cong: option.case_cong)
qed

lemma same_off_featuremaps:
  assumes "same_off head_paths T T'"
  shows "OSNet_featuremaps T' net x = OSNet_featuremaps T net x"
  by (simp add: OSNet_featuremaps_def
        same_off_ConvLayer [OF assms] same_off_Conv1x1 [OF assms] same_off_OSBlock [OF assms]
        same_off_call0 [OF assms])

lemma same_off_pooled:
  assumes "same_off head_paths T T'"
  shows "OSNet_pooled T' net x = OSNet_pooled T net x"
proof -
  have "view_flat T' = view_flat T" using assms by (simp add: same_off_def)
  then show ?thesis
    by (simp add: OSNet_pooled_def same_off_featuremaps [OF assms] same_off_call0 [OF assms]
        split: prod.split)
qed

section \<open>Shapes\<close>

lemma shape_call [simp]:
  "nn_call (shape_torch tr) name l (Some d) = shape_layer tr l d"
  "nn_call (shape_torch tr) name l None = None"
  by (simp_all add: shape_torch_def)

lemma shape_ops [simp]:
  "torch_add (shape_torch tr) = broadcast"
  "torch_mul (shape_torch tr) = broadcast"
  "F_relu (shape_torch tr) a = a"
  "F_normalize (shape_torch tr) = shape_normalize"
  "view_flat (shape_torch tr) = shape_view_flat"
  "torch_cat (shape_torch tr) = shape_cat"
  by (simp_all add: shape_torch_def)

lemma window_out_pos [simp]: "0 < window_out n k s p"
  by (simp add: window_out_def)

lemma window_out_same [simp]:
  "0 < n \<Longrightarrow> window_out n (Suc 0) (Suc 0) 0 = n"
  "0 < n \<Longrightarrow> window_out n 3 (Suc 0) (Suc 0) = n"
  by (simp_all add: window_out_def)

lemma shape4_simp [simp]: "shape4 [B, C, H, W] f = f B C H W"
  by (simp add: shape4_def)

lemma broadcast_same [simp]: "broadcast (Some [B, C, H, W]) (Some [B, C, H, W]) = Some [B, C, H, W]"
  by (simp add: broadcast_def)

lemma broadcast_gate [simp]:
  "broadcast (Some [B, C, H, W]) (Some [B, C, Suc 0, Suc 0]) = Some [B, C, H, W]"
  by (simp add: broadcast_def)

lemma Conv1x1_shape:
  "Conv1x1_init cin cout 1 1 = Inr m \<Longrightarrow> 0 < H \<Longrightarrow> 0 < W \<Longrightarrow>
   Conv1x1_forward (shape_torch False) p m (Some [B, cin, H, W]) = Some [B, cout, H, W]"
  by (auto simp add: Conv1x1_forward_def Conv1x1_init_eq)

lemma Conv1x1Linear_shape:
  "Conv1x1Linear_init cin cout 1 = Inr m \<Longrightarrow> 0 < H \<Longrightarrow> 0 < W \<Longrightarrow>
   Conv1x1Linear_forward (shape_torch False) p m (Some [B, cin, H, W]) = Some [B, cout, H, W]"
  by (auto simp add: Conv1x1Linear_forward_def Conv1x1Linear_init_eq)

lemma LightConv3x3_shape:
  "LightConv3x3_init c c = Inr m \<Longrightarrow> 0 < H \<Longrightarrow> 0 < W \<Longrightarrow>
   LightConv3x3_forward (shape_torch False) p m (Some [B, c, H, W]) = Some [B, c, H, W]"
  by (auto simp add: LightConv3x3_forward_def LightConv3x3_init_eq split: if_splits)

lemma Sequential_shape:
  "LightConv3x3_init c c = Inr m \<Longrightarrow> 0 < H \<Longrightarrow> 0 < W \<Longrightarrow>
   Sequential_forward (shape_torch False) p i (replicate n m) (Some [B, c, H, W]) =
     Some [B, c, H, W]"
  by (induction n arbitrary: i) (simp_all add: LightConv3x3_shape)

lemma ChannelGate_shape:
  assumes "0 < H" "0 < W" "0 < c"
    and "ChannelGate_init c None False ''sigmoid'' 16 False = Inr g"
  shows "ChannelGate_forward (shape_torch False) p g (Some [B, c, H, W]) = Some [B, c, H, W]"
proof -
  have "g = \<lparr>ChannelGate_return_gates = False,
         ChannelGate_global_avgpool = AdaptiveAvgPool2d 1,
         ChannelGate_fc1 = Conv2d c (c div 16) 1 1 0 True 1,
         ChannelGate_norm1 = None,
         ChannelGate_relu = ReLU True,
         ChannelGate_fc2 = Conv2d (c div 16) c 1 1 0 True 1,
         ChannelGate_gate_activation = Some Sigmoid\<rparr>"
    using assms(4) by (simp add: ChannelGate_init_known)
  then show ?thesis
    using assms(1-3) by (simp add: ChannelGate_forward_def)
qed

lemma OSBlock_shape:
  assumes "0 < H" "0 < W" "4 \<le> cout" "IN \<longrightarrow> 1 < H * W"
    and "OSBlock_init cin cout IN 4 = Inr b"
  shows "OSBlock_forward (shape_torch False) p b (Some [B, cin, H, W]) =
           (Some [B, cout, H, W], Some [B, cout div 4, H, W])"
proof -
  have mid: "0 < cout div 4" using assms(3) by (simp add: div_greater_zero_iff)
  from assms(5) obtain conv1 light gate conv3 d where
    conv1: "Conv1x1_init cin (cout div 4) 1 1 = Inr conv1" and
    light: "LightConv3x3_init (cout div 4) (cout div 4) = Inr light" and
    gate: "ChannelGate_init (cout div 4) None False ''sigmoid'' 16 False = Inr gate" and
    conv3: "Conv1x1Linear_init (cout div 4) cout 1 = Inr conv3" and
    d: "Conv1x1Linear_init cin cout 1 = Inr d" and
    b: "b = \<lparr>OSBlock_conv1 = conv1,
            OSBlock_conv2a = light,
            OSBlock_conv2b = replicate 2 light,
            OSBlock_conv2c = replicate 3 light,
            OSBlock_conv2d = replicate 4 light,
            OSBlock_gate = gate,
            OSBlock_conv3 = conv3,
            OSBlock_downsample = (if cin \<noteq> cout then Some d else None),
            OSBlock_IN = (if IN then Some (InstanceNorm2d cout True) else None)\<rparr>"
    by (rule OSBlock_init_Inr)
  show ?thesis
    unfolding b OSBlock_forward_def OSBlock_locals_def
    using assms(1,2,4) mid
    by (simp add: Let_def Conv1x1_shape [OF conv1] LightConv3x3_shape [OF light]
        Sequential_shape [OF light] ChannelGate_shape [OF assms(1,2) mid gate]
        Conv1x1Linear_shape [OF conv3] Conv1x1Linear_shape [OF d])
qed

lemma window_bounds:
  assumes "13 \<le> n"
  shows "2 \<le> window_out (window_out n 7 2 3) 3 2 1"
    "2 \<le> window_out (window_out (window_out n 7 2 3) 3 2 1) 2 2 0"
  using assms unfolding window_out_def by simp_all

lemma window_bounds_IN:
  assumes "29 \<le> n"
  shows "2 \<le> window_out (window_out (window_out (window_out n 7 2 3) 3 2 1) 2 2 0) 2 2 0"
  using assms unfolding window_out_def by simp

lemma mult_gt_1: "0 < a \<Longrightarrow> 0 < b \<Longrightarrow> 2 \<le> a \<or> 2 \<le> b \<Longrightarrow> Suc 0 < a * (b :: nat)"
  by (metis One_nat_def Suc_1 Suc_le_eq less_1_mult mult.commute mult.right_neutral nat_less_le nat_mult_1 not_less)


lemma OSNet_featuremaps_shape:
  assumes net: "OSNet_init n blocks layers channels fd loss IN = Inr net"
    and ch: "py_index channels 0 = Inr 64" "py_index channels 3 = Inr 512"
    and size: "13 \<le> H" "13 \<le> W" "IN \<longrightarrow> 29 \<le> H \<or> 29 \<le> W"
  defines "H2 \<equiv> window_out (window_out H 7 2 3) 3 2 1"
    and "W2 \<equiv> window_out (window_out W 7 2 3) 3 2 1"
  defines "H3 \<equiv> window_out H2 2 2 0" and "W3 \<equiv> window_out W2 2 2 0"
  defines "H4 \<equiv> window_out H3 2 2 0" and "W4 \<equiv> window_out W3 2 2 0"
  shows "OSNet_featuremaps (shape_torch False) (net\<lparr>OSNet_training := tr\<rparr>) (Some [B, 3, H, W]) =
    (Some [B, 512, H4, W4], Some [B, 64, H2, W2], Some [B, 96, H3, W3], Some [B, 128, H4, W4])"
proof -
  from net obtain b20 b21 b30 b31 b40 b41 c0 c3 m1 m22 m32 ma mb mc m5 where
    c: "py_index channels 0 = Inr c0" "py_index channels 3 = Inr c3" and
    m1: "ConvLayer_init 3 c0 7 2 3 1 IN = Inr m1" and
    m: "Conv1x1_init 256 256 1 1 = Inr m22" "Conv1x1_init 384 384 1 1 = Inr m32"
    "Conv1x1_init 64 64 1 1 = Inr ma" "Conv1x1_init 96 96 1 1 = Inr mb"
    "Conv1x1_init 128 128 1 1 = Inr mc" "Conv1x1_init c3 c3 1 1 = Inr m5" and
    b: "OSBlock_init 64 256 IN 4 = Inr b20" "OSBlock_init 256 256 IN 4 = Inr b21"
    "OSBlock_init 256 384 IN 4 = Inr b30" "OSBlock_init 384 384 IN 4 = Inr b31"
    "OSBlock_init 384 512 IN 4 = Inr b40" "OSBlock_init 512 512 IN 4 = Inr b41" and
    n: "net = \<lparr>OSNet_loss = loss,
               OSNet_training = True,
               OSNet_conv1 = m1,
               OSNet_maxpool = MaxPool2d 3 2 1,
               OSNet_conv2_0 = b20,
               OSNet_conv2_1 = b21,
               OSNet_conv2_2 = m22,
               OSNet_conv2_3 = AvgPool2d 2 2,
               OSNet_conv3_0 = b30,
               OSNet_conv3_1 = b31,
               OSNet_conv3_2 = m32,
               OSNet_conv3_3 = AvgPool2d 2 2,
               OSNet_conv4_0 = b40,
               OSNet_conv4_1 = b41,
               OSNet_conv_a = ma,
               OSNet_conv_b = mb,
               OSNet_conv_c = mc,
               OSNet_conv5 = m5,
               OSNet_global_avgpool = AdaptiveAvgPool2d 1,
               OSNet_classifier = Linear 512 n,
               OSNet_classifier_a = Linear 64 n,
               OSNet_classifier_b = Linear 96 n,
               OSNet_classifier_c = Linear 128 n,
               OSNet_bn = BatchNorm1d 512,
               OSNet_bn_a = BatchNorm1d 64,
               OSNet_bn_b = BatchNorm1d 96,
               OSNet_bn_c = BatchNorm1d 128\<rparr>"
    by (rule OSNet_init_Inr)
  from c ch have c0: "c0 = 64" and c3: "c3 = 512" by simp_all
  have pos: "0 < H2" "0 < W2" "0 < H3" "0 < W3" "0 < H4" "0 < W4"
    by (simp_all add: H2_def W2_def H3_def W3_def H4_def W4_def)
  have two: "2 \<le> H2" "2 \<le> W2" "2 \<le> H3" "2 \<le> W3"
    using window_bounds [OF size(1)] window_bounds [OF size(2)]
    by (simp_all add: H2_def W2_def H3_def W3_def)
  have IN2: "IN \<longrightarrow> 1 < H2 * W2" and IN3: "IN \<longrightarrow> 1 < H3 * W3"
    using two pos by (simp_all add: mult_gt_1)
  have IN4: "IN \<longrightarrow> 1 < H4 * W4"
    using size(3) window_bounds_IN [of H] window_bounds_IN [of W] pos
    by (auto simp add: H2_def W2_def H3_def W3_def H4_def W4_def intro!: mult_gt_1)
  have "2 \<le> window_out H 7 2 3"
    using size(1) by (simp add: window_out_def)
  then have IN1: "Suc 0 < window_out H 7 2 3 * window_out W 7 2 3"
    by (simp add: mult_gt_1)
  have conv1: "ConvLayer_forward (shape_torch False) ''conv1.'' m1
      (Some [B, 3, H, W]) = Some [B, 64, window_out H 7 2 3, window_out W 7 2 3]"
    using size(1,2) IN1 m1 by (auto simp add: ConvLayer_forward_def ConvLayer_init_eq c0)
  have pool1: "shape_layer False (MaxPool2d 3 2 (Suc 0)) [B, 64, window_out H 7 2 3, window_out W 7 2 3]
      = Some [B, 64, H2, W2]"
    by (simp add: H2_def W2_def Suc_le_eq)
  have pool2: "shape_layer False (AvgPool2d 2 2) [B, 256, H2, W2] = Some [B, 256, H3, W3]"
    using two by (simp add: H3_def W3_def)
  have pool3: "shape_layer False (AvgPool2d 2 2) [B, 384, H3, W3] = Some [B, 384, H4, W4]"
    using two by (simp add: H4_def W4_def)
  note blk =
    OSBlock_shape [OF pos(1,2) _ IN2 b(1)] OSBlock_shape [OF pos(1,2) _ IN2 b(2)]
    OSBlock_shape [OF pos(3,4) _ IN3 b(3)] OSBlock_shape [OF pos(3,4) _ IN3 b(4)]
    OSBlock_shape [OF pos(5,6) _ IN4 b(5)] OSBlock_shape [OF pos(5,6) _ IN4 b(6)]
  note cv = m(1-5) [THEN Conv1x1_shape] m(6) [unfolded c3, THEN Conv1x1_shape]
  show ?thesis
    unfolding n OSNet_featuremaps_def
    using pos by (simp add: conv1 pool1 pool2 pool3 blk cv del: shape_layer.simps)
qed


lemma OSNet_forward_eval_shape:
  assumes net: "OSNet_init n blocks layers channels fd loss IN = Inr net"
    and ch: "py_index channels 0 = Inr 64" "py_index channels 3 = Inr 512"
    and size: "13 \<le> H" "13 \<le> W" "IN \<longrightarrow> 29 \<le> H \<or> 29 \<le> W" and batch: "0 < B"
  shows "OSNet_forward (shape_torch False) (OSNet_eval net) (Some [B, 3, H, W]) False =
           Inr (Descriptor (Some [B, 800]))"
proof -
  note fm = OSNet_featuremaps_shape [OF net ch size, of False B, folded OSNet_eval_def]
  have fields: "OSNet_global_avgpool (OSNet_eval net) = AdaptiveAvgPool2d 1"
    "OSNet_bn (OSNet_eval net) = BatchNorm1d 512" "OSNet_bn_a (OSNet_eval net) = BatchNorm1d 64"
    "OSNet_bn_b (OSNet_eval net) = BatchNorm1d 96" "OSNet_bn_c (OSNet_eval net) = BatchNorm1d 128"
    "\<not> OSNet_training (OSNet_eval net)"
    using OSNet_init_heads [OF net] by (simp_all add: OSNet_eval_def)
  show ?thesis
    using batch
    by (simp add: OSNet_forward_def fm fields shape_view_flat_def shape_normalize_def)
qed

lemma pfh_osnet_channels:
  "py_index [64, 256, 384, 512 :: nat] 0 = Inr 64" "py_index [64, 256, 384, 512 :: nat] 3 = Inr 512"
  by (simp_all add: py_index_def)

lemma pfh_osnet_Inr: "\<exists>net. pfh_osnet n pre loss fd IN = Inr net"
  by (simp add: pfh_osnet_def OSNet_init_def py_index_def OSBlock_init_eq ConvLayer_init_eq
      Conv1x1_init_eq rbind_simps Let_def)


lemma OSNet_normed_eval_shape:
  assumes net: "OSNet_init n blocks layers channels fd loss IN = Inr net"
    and ch: "py_index channels 0 = Inr 64" "py_index channels 3 = Inr 512"
    and size: "13 \<le> H" "13 \<le> W" "IN \<longrightarrow> 29 \<le> H \<or> 29 \<le> W" and batch: "0 < B"
  shows "OSNet_normed (shape_torch False) (OSNet_eval net) (Some [B, 3, H, W]) =
           [Some [B, 512], Some [B, 64], Some [B, 96], Some [B, 128]]"
proof -
  note fm = OSNet_featuremaps_shape [OF net ch size, of False B, folded OSNet_eval_def]
  have fields: "OSNet_global_avgpool (OSNet_eval net) = AdaptiveAvgPool2d 1"
    "OSNet_bn (OSNet_eval net) = BatchNorm1d 512" "OSNet_bn_a (OSNet_eval net) = BatchNorm1d 64"
    "OSNet_bn_b (OSNet_eval net) = BatchNorm1d 96" "OSNet_bn_c (OSNet_eval net) = BatchNorm1d 128"
    using OSNet_init_heads [OF net] by (simp_all add: OSNet_eval_def)
  show ?thesis
    using batch
    by (simp add: OSNet_normed_def OSNet_pooled_def OSNet_heads_def fm fields
        shape_view_flat_def)
qed

section \<open>The inference output\<close>

text \<open>
  Claim C1, as amended. In evaluation mode and without \<^verbatim>\<open>return_featuremaps\<close>,
  \<^verbatim>\<open>OSNet.forward\<close> L2-normalises each of the four pooled, batch-normalised vectors and
  returns their concatenation along the feature axis, and nothing else. For the network of
  \<^verbatim>\<open>pfh_osnet\<close> on a batch of \<open>B > 0\<close> images of height and width at least 13 (and, with
  instance normalisation, one of them at least 29) the four vectors have the widths 512,
  64, 96 and 128 and the descriptor has 512 + 64 + 96 + 128 = 800 dimensions per image,
  not 832.
\<close>

theorem OSNet_forward_eval_descriptor:
  "(\<not> OSNet_training net \<longrightarrow>
      OSNet_forward T net x False =
        Inr (Descriptor (torch_cat T (map (F_normalize T) (OSNet_normed T net x))))) \<and>
   (pfh_osnet num_classes pretrained loss feature_dim IN = Inr net0 \<and>
    0 < B \<and> 13 \<le> H \<and> 13 \<le> W \<and> (IN \<longrightarrow> 29 \<le> H \<or> 29 \<le> W) \<longrightarrow>
      OSNet_normed (shape_torch False) (OSNet_eval net0) (Some [B, 3, H, W]) =
        [Some [B, 512], Some [B, 64], Some [B, 96], Some [B, 128]] \<and>
      OSNet_forward (shape_torch False) (OSNet_eval net0) (Some [B, 3, H, W]) False =
        Inr (Descriptor (Some [B, 800])))"
proof (intro conjI impI)
  assume "\<not> OSNet_training net"
  then show "OSNet_forward T net x False =
      Inr (Descriptor (torch_cat T (map (F_normalize T) (OSNet_normed T net x))))"
    by (rule OSNet_forward_eval)
next
  assume a: "pfh_osnet num_classes pretrained loss feature_dim IN = Inr net0 \<and>
    0 < B \<and> 13 \<le> H \<and> 13 \<le> W \<and> (IN \<longrightarrow> 29 \<le> H \<or> 29 \<le> W)"
  then have net: "OSNet_init num_classes [OSBlock_class, OSBlock_class, OSBlock_class]
      [2, 2, 2 :: nat] [64, 256, 384, 512] feature_dim loss IN = Inr net0"
    by (simp add: pfh_osnet_def)
  from a have size: "13 \<le> H" "13 \<le> W" "IN \<longrightarrow> 29 \<le> H \<or> 29 \<le> W" and batch: "0 < B"
    by simp_all
  show "OSNet_normed (shape_torch False) (OSNet_eval net0) (Some [B, 3, H, W]) =
      [Some [B, 512], Some [B, 64], Some [B, 96], Some [B, 128]]"
    by (rule OSNet_normed_eval_shape [OF net pfh_osnet_channels size batch])
  show "OSNet_forward (shape_torch False) (OSNet_eval net0) (Some [B, 3, H, W]) False =
      Inr (Descriptor (Some [B, 800]))"
    by (rule OSNet_forward_eval_shape [OF net pfh_osnet_channels size batch])
qed

text \<open>
  The theorem at the network \<^verbatim>\<open>pfh_osnet(num_classes=751)\<close> in evaluation mode: the
  graph of the output on an input \<open>imgs\<close>, and the shapes on a batch of two
  256 by 128 images.
\<close>

theorem OSNet_forward_eval_descriptor_witness:
  "\<exists>net. pfh_osnet 751 True ''softmax'' 512 False = Inr net \<and>
     OSNet_forward sym_torch (OSNet_eval net) (Input ''imgs'') False =
       Inr (Descriptor (Cat (map Normalize
         (OSNet_normed sym_torch (OSNet_eval net) (Input ''imgs''))))) \<and>
     OSNet_normed (shape_torch False) (OSNet_eval net) (Some [2, 3, 256, 128]) =
       [Some [2, 512], Some [2, 64], Some [2, 96], Some [2, 128]] \<and>
     OSNet_forward (shape_torch False) (OSNet_eval net) (Some [2, 3, 256, 128]) False =
       Inr (Descriptor (Some [2, 800]))"
proof -
  obtain net where net: "pfh_osnet 751 True ''softmax'' 512 False = Inr net"
    using pfh_osnet_Inr by blast
  have ev: "\<not> OSNet_training (OSNet_eval net)"
    by (simp add: OSNet_eval_def)
  note inst = OSNet_forward_eval_descriptor
    [of "OSNet_eval net" sym_torch "Input ''imgs''" 751 True "''softmax''" 512 False net 2 256 128]
  have g: "OSNet_forward sym_torch (OSNet_eval net) (Input ''imgs'') False =
       Inr (Descriptor (Cat (map Normalize
         (OSNet_normed sym_torch (OSNet_eval net) (Input ''imgs'')))))"
    using inst [THEN conjunct1, rule_format, OF ev] by (simp add: sym_torch_def)
  have hyp: "pfh_osnet 751 True ''softmax'' 512 False = Inr net \<and>
    0 < (2 :: nat) \<and> 13 \<le> (256 :: nat) \<and> 13 \<le> (128 :: nat) \<and>
    (False \<longrightarrow> 29 \<le> (256 :: nat) \<or> 29 \<le> (128 :: nat))"
    using net by simp
  note sh = inst [THEN conjunct2, rule_format, OF hyp]
  show ?thesis
  proof (intro exI [of _ net] conjI)
    show "OSNet_normed (shape_torch False) (OSNet_eval net) (Some [2, 3, 256, 128]) =
       [Some [2, 512], Some [2, 64], Some [2, 96], Some [2, 128]]"
      using sh by (rule conjunct1)
    show "OSNet_forward (shape_torch False) (OSNet_eval net) (Some [2, 3, 256, 128]) False =
       Inr (Descriptor (Some [2, 800]))"
      using sh by (rule conjunct2)
  qed (rule net g)+
qed

text \<open>
  Claim C1 as stated fails: for \<^verbatim>\<open>pfh_osnet()\<close> in evaluation mode on a batch of two
  256 by 128 images the output has the shape \<open>[2, 800]\<close>, so the descriptor is
  800-dimensional and not 832-dimensional.
\<close>

theorem OSNet_descriptor_not_832:
  "rbind (pfh_osnet 1000 True ''softmax'' 512 False) (\<lambda>net.
     OSNet_forward (shape_torch False) (OSNet_eval net) (Some [2, 3, 256, 128]) False) =
     Inr (Descriptor (Some [2, 800])) \<and>
   (800 :: nat) \<noteq> 832"
proof -
  obtain net where net: "pfh_osnet 1000 True ''softmax'' 512 False = Inr net"
    using pfh_osnet_Inr by blast
  have "OSNet_forward (shape_torch False) (OSNet_eval net) (Some [2, 3, 256, 128]) False =
      Inr (Descriptor (Some [2, 800]))"
    by (rule OSNet_forward_eval_shape [OF net [unfolded pfh_osnet_def] pfh_osnet_channels])
      simp_all
  then show ?thesis
    unfolding net rbind_simps by simp
qed

section \<open>One batch of the training loop\<close>

lemma engine_init_fields:
  "weight_t (ImageTripletEngine_init n margin w_t w_x w_c sch gpu ls) = w_t"
  "weight_x (ImageTripletEngine_init n margin w_t w_x w_c sch gpu ls) = w_x"
  "weight_c (ImageTripletEngine_init n margin w_t w_x w_c sch gpu ls) = w_c"
  "criterion_t (ImageTripletEngine_init n margin w_t w_x w_c sch gpu ls) = TripletLoss margin"
  "criterion_x (ImageTripletEngine_init n margin w_t w_x w_c sch gpu ls) = CrossEntropyLoss n gpu ls"
  "use_gpu (ImageTripletEngine_init n margin w_t w_x w_c sch gpu ls) = gpu"
  "has_scheduler (ImageTripletEngine_init n margin w_t w_x w_c sch gpu ls) = sch"
  by (simp_all add: ImageTripletEngine_init_def Let_def)

lemma engine_init_center:
  "criterion_c (ImageTripletEngine_init n margin w_t w_x w_c sch gpu ls) =
     (if w_c \<noteq> 0 then Some (CenterLoss n 512) else None)"
  "criterion_ca (ImageTripletEngine_init n margin w_t w_x w_c sch gpu ls) =
     (if w_c \<noteq> 0 then Some (CenterLoss n 64) else None)"
  "criterion_cb (ImageTripletEngine_init n margin w_t w_x w_c sch gpu ls) =
     (if w_c \<noteq> 0 then Some (CenterLoss n 96) else None)"
  "criterion_cc (ImageTripletEngine_init n margin w_t w_x w_c sch gpu ls) =
     (if w_c \<noteq> 0 then Some (CenterLoss n 128) else None)"
  by (simp_all add: ImageTripletEngine_init_def Let_def)

lemma center_loss_init:
  assumes "w_c \<noteq> 0 \<longrightarrow> 4 \<le> length features"
  shows "center_loss E (ImageTripletEngine_init n margin w_t w_x w_c sch gpu ls) features pids =
    (if w_c \<noteq> 0 then
       Inr (w_c,
            compute_loss E (CenterLoss n 512) (Single (features ! 0)) pids
            + compute_loss E (CenterLoss n 64) (Single (features ! 1)) pids
            + compute_loss E (CenterLoss n 96) (Single (features ! 2)) pids
            + compute_loss E (CenterLoss n 128) (Single (features ! 3)) pids,
            [LossEval (CenterLoss n 512) (Single (features ! 0)),
             LossEval (CenterLoss n 64) (Single (features ! 1)),
             LossEval (CenterLoss n 96) (Single (features ! 2)),
             LossEval (CenterLoss n 128) (Single (features ! 3))])
     else Inr (0, 0, []))"
proof (cases "w_c = 0")
  case True
  then show ?thesis
    by (simp add: center_loss_def engine_init_fields)
next
  case False
  with assms have "4 \<le> length features" by simp
  then have "features \<noteq> []" "1 < length features" "2 < length features"
    "3 < length features"
    by auto
  with False show ?thesis
    by (simp add: center_loss_def engine_init_fields engine_init_center attribute_def
        py_index_def rbind_simps Let_def)
qed

lemma train_batch_init:
  fixes E :: "('m, 'd, 'i, 'p, 't) env" and n :: nat and margin w_t w_x w_c :: real
    and sch gpu ls :: bool
  assumes data: "parse_data_for_train E data = (imgs0, pids0)"
    and imgs: "imgs = (if gpu then cuda_imgs E imgs0 else imgs0)"
    and pids: "pids = (if gpu then cuda_pids E pids0 else pids0)"
    and call: "model_call E m imgs = Inr (outputs, features)"
    and len: "w_c \<noteq> 0 \<longrightarrow> 4 \<le> length features"
    and freq: "print_freq \<noteq> 0"
  defines "self \<equiv> ImageTripletEngine_init n margin w_t w_x w_c sch gpu ls"
  defines "loss_t \<equiv> compute_loss E (TripletLoss margin) (Many features) pids"
    and "loss_x \<equiv> compute_loss E (CrossEntropyLoss n gpu ls) (Many outputs) pids"
    and "center_sum \<equiv> compute_loss E (CenterLoss n 512) (Single (features ! 0)) pids
            + compute_loss E (CenterLoss n 64) (Single (features ! 1)) pids
            + compute_loss E (CenterLoss n 96) (Single (features ! 2)) pids
            + compute_loss E (CenterLoss n 128) (Single (features ! 3)) pids"
  shows "train_batch E self epoch max_epoch writer print_freq num_batches batch_idx data m =
    Inr (optimizer_step E m imgs pids (w_t * loss_t + w_x * loss_x + w_c * center_sum),
      [LossEval (TripletLoss margin) (Many features),
       LossEval (CrossEntropyLoss n gpu ls) (Many outputs)]
      @ (if w_c \<noteq> 0 then
           [LossEval (CenterLoss n 512) (Single (features ! 0)),
            LossEval (CenterLoss n 64) (Single (features ! 1)),
            LossEval (CenterLoss n 96) (Single (features ! 2)),
            LossEval (CenterLoss n 128) (Single (features ! 3))]
         else [])
      @ [Backward (w_t * loss_t + w_x * loss_x + w_c * center_sum)]
      @ (if (int batch_idx + 1) mod print_freq = 0
         then [Progress (epoch + 1) max_epoch (int batch_idx + 1) (int num_batches)] else [])
      @ (if writer then add_scalars (epoch * int num_batches + int batch_idx) else []))"
  unfolding train_batch_def self_def
  using freq call
  by (simp add: data imgs [symmetric] pids [symmetric] engine_init_fields rbind_simps
      center_loss_init [OF len] Let_def loss_t_def loss_x_def center_sum_def)


lemma written_append [simp]: "written (a @ b) = written a @ written b"
  by (simp add: written_def)

lemma progress_lines_append [simp]: "progress_lines (a @ b) = progress_lines a @ progress_lines b"
  by (simp add: progress_lines_def)

lemma written_simps [simp]:
  "written [] = []"
  "written (AddScalar tag n # evs) = (tag, n) # written evs"
  "written (LossEval cr x # evs) = written evs"
  "written (Backward l # evs) = written evs"
  "written (Progress a b c d # evs) = written evs"
  "written (OnlyTrain ol e f # evs) = written evs"
  "written (SchedulerStep # evs) = written evs"
  by (simp_all add: written_def)

lemma progress_lines_simps [simp]:
  "progress_lines [] = []"
  "progress_lines (Progress a b c d # evs) = (a, b, c, d) # progress_lines evs"
  "progress_lines (LossEval cr x # evs) = progress_lines evs"
  "progress_lines (Backward l # evs) = progress_lines evs"
  "progress_lines (AddScalar tag n # evs) = progress_lines evs"
  "progress_lines (OnlyTrain ol e f # evs) = progress_lines evs"
  "progress_lines (SchedulerStep # evs) = progress_lines evs"
  by (simp_all add: progress_lines_def)

lemma written_add_scalars: "written (add_scalars n) = map (\<lambda>tag. (tag, n)) scalar_tags"
  by (simp add: add_scalars_def scalar_tags_def)

lemma progress_add_scalars: "progress_lines (add_scalars n) = []"
  by (simp add: add_scalars_def)

lemma center_loss_events:
  assumes "center_loss E self features pids = Inr (w, l, evs)"
  shows "written evs = []" "progress_lines evs = []"
  using assms
  by (auto simp add: center_loss_def rbind_def Let_def split: if_splits sum.splits)

lemma train_batch_reporting:
  assumes "train_batch E self epoch max_epoch writer print_freq num_batches batch_idx data m =
             Inr (m', evs)"
  shows "written evs =
           (if writer then map (\<lambda>tag. (tag, epoch * int num_batches + int batch_idx)) scalar_tags
            else [])"
    and "progress_lines evs =
           (if (int batch_idx + 1) mod print_freq = 0
            then [(epoch + 1, max_epoch, int batch_idx + 1, int num_batches)] else [])"
    and "print_freq \<noteq> 0"
  using assms
  by (auto simp add: train_batch_def rbind_def Let_def written_add_scalars progress_add_scalars
      center_loss_events split: prod.splits sum.splits if_splits)

lemma train_loop_reporting:
  "train_loop E self epoch max_epoch writer print_freq num_batches i batches m = Inr (m', evs) \<Longrightarrow>
   written evs =
     (if writer
      then concat (map (\<lambda>b. map (\<lambda>tag. (tag, epoch * int num_batches + int b)) scalar_tags)
             [i..<i + length batches])
      else []) \<and>
   progress_lines evs =
     map (\<lambda>b. (epoch + 1, max_epoch, int b + 1, int num_batches))
       (filter (\<lambda>b. (int b + 1) mod print_freq = 0) [i..<i + length batches])"
proof (induction batches arbitrary: i m m' evs)
  case Nil
  then show ?case by simp
next
  case (Cons data rest)
  from Cons.prems obtain m1 evs1 evs2 where
    b: "train_batch E self epoch max_epoch writer print_freq num_batches i data m = Inr (m1, evs1)"
    and r: "train_loop E self epoch max_epoch writer print_freq num_batches (Suc i) rest m1 =
              Inr (m', evs2)"
    and e: "evs = evs1 @ evs2"
    by (auto simp add: rbind_def split: sum.splits prod.splits)
  have "[i..<i + Suc (length rest)] = i # [Suc i..<i + Suc (length rest)]"
    by (rule upt_conv_Cons) simp
  then have u: "[i..<i + length (data # rest)] = i # [Suc i..<Suc i + length rest]"
    by simp
  show ?case
    unfolding e u using train_batch_reporting(1,2) [OF b] Cons.IH [OF r] by simp
qed

lemma train_reporting:
  assumes "train E self train_loader epoch max_epoch writer print_freq fixbase_epoch open_layers m =
             Inr (m', evs)"
  shows "written evs =
           (if writer
            then concat (map (\<lambda>b. map (\<lambda>tag. (tag, epoch * int (length train_loader) + int b))
                   scalar_tags) [0..<length train_loader])
            else [])"
    and "progress_lines evs =
           map (\<lambda>b. (epoch + 1, max_epoch, int b + 1, int (length train_loader)))
             (filter (\<lambda>b. (int b + 1) mod print_freq = 0) [0..<length train_loader])"
proof -
  obtain m0 evs0 where p: "train_prologue E epoch fixbase_epoch open_layers m = (m0, evs0)"
    by (cases "train_prologue E epoch fixbase_epoch open_layers m")
  have evs0: "written evs0 = []" "progress_lines evs0 = []"
    using p by (auto simp add: train_prologue_def Let_def split: if_splits)
  from assms p obtain m1 evs1 where
    l: "train_loop E self epoch max_epoch writer print_freq (length train_loader) 0 train_loader m0 =
          Inr (m1, evs1)"
    and e: "evs = evs0 @ evs1 @ (if has_scheduler self then [SchedulerStep] else [])"
    by (auto simp add: train_def rbind_def Let_def split: sum.splits prod.splits if_splits)
  show "written evs =
           (if writer
            then concat (map (\<lambda>b. map (\<lambda>tag. (tag, epoch * int (length train_loader) + int b))
                   scalar_tags) [0..<length train_loader])
            else [])"
    unfolding e using train_loop_reporting [OF l] evs0 by simp
  show "progress_lines evs =
           map (\<lambda>b. (epoch + 1, max_epoch, int b + 1, int (length train_loader)))
             (filter (\<lambda>b. (int b + 1) mod print_freq = 0) [0..<length train_loader])"
    unfolding e using train_loop_reporting [OF l] evs0 by simp
qed


lemma backward_losses_simps [simp]:
  "backward_losses [] = []"
  "backward_losses (Backward l # evs) = l # backward_losses evs"
  "backward_losses (LossEval cr x # evs) = backward_losses evs"
  "backward_losses (Progress a b c d # evs) = backward_losses evs"
  "backward_losses (AddScalar tag n # evs) = backward_losses evs"
  "backward_losses (OnlyTrain ol e f # evs) = backward_losses evs"
  "backward_losses (SchedulerStep # evs) = backward_losses evs"
  "backward_losses (evs @ evs') = backward_losses evs @ backward_losses evs'"
  by (simp_all add: backward_losses_def)

lemma loss_evals_simps [simp]:
  "loss_evals [] = []"
  "loss_evals (LossEval cr x # evs) = (cr, x) # loss_evals evs"
  "loss_evals (Backward l # evs) = loss_evals evs"
  "loss_evals (Progress a b c d # evs) = loss_evals evs"
  "loss_evals (AddScalar tag n # evs) = loss_evals evs"
  "loss_evals (OnlyTrain ol e f # evs) = loss_evals evs"
  "loss_evals (SchedulerStep # evs) = loss_evals evs"
  "loss_evals (evs @ evs') = loss_evals evs @ loss_evals evs'"
  by (simp_all add: loss_evals_def)

lemma backward_add_scalars [simp]:
  "backward_losses (add_scalars n) = []" "loss_evals (add_scalars n) = []"
  by (simp_all add: add_scalars_def)




section \<open>The start of an epoch\<close>

lemma train_prologue_fst:
  "fst (train_prologue E epoch fixbase_epoch open_layers m) =
     (if epoch + 1 \<le> fixbase_epoch \<and> open_layers \<noteq> None
      then open_specified_layers E (model_train E m) (the open_layers)
      else open_all_layers E (model_train E m))"
  by (cases open_layers) (simp_all add: train_prologue_def Let_def)

lemma open_specified_layers_spec_eq:
  "open_specified_layers_spec m ol = map (\<lambda>name. (name, name \<in> set ol)) (map fst m)"
  by (simp add: open_specified_layers_spec_def case_prod_unfold)

lemma open_all_layers_spec_eq:
  "open_all_layers_spec m = map (\<lambda>name. (name, True)) (map fst m)"
  by (simp add: open_all_layers_spec_def case_prod_unfold)

text \<open>
  Claim C6, as amended. \<^verbatim>\<open>train\<close> starts with \<open>train_prologue\<close>. With the two helpers
  as the specification describes them (and \<^verbatim>\<open>model.train()\<close> keeping the layers): if
  \<open>epoch + 1 \<le> fixbase_epoch\<close> and \<open>open_layers\<close> is given (not \<^verbatim>\<open>None\<close>; the list may
  be empty), a layer is trainable exactly when it is named in \<open>open_layers\<close>, so every other
  layer is frozen; otherwise, that is from epoch index \<open>fixbase_epoch\<close> on or with
  \<open>open_layers = None\<close>, every layer is trainable. The flags are set anew at the start of
  every call.
\<close>

theorem train_prologue_layers:
  fixes E :: "(layer_flags, 'd, 'i, 'p, 't) env"
  assumes "open_specified_layers E = open_specified_layers_spec"
    and "open_all_layers E = open_all_layers_spec"
    and "map fst (model_train E m) = map fst m"
  shows "(epoch + 1 \<le> fixbase_epoch \<and> open_layers = Some ol \<longrightarrow>
            fst (train_prologue E epoch fixbase_epoch open_layers m) =
              map (\<lambda>name. (name, name \<in> set ol)) (map fst m)) \<and>
         (\<not> epoch + 1 \<le> fixbase_epoch \<or> open_layers = None \<longrightarrow>
            fst (train_prologue E epoch fixbase_epoch open_layers m) =
              map (\<lambda>name. (name, True)) (map fst m))"
proof (intro conjI impI)
  assume "epoch + 1 \<le> fixbase_epoch \<and> open_layers = Some ol"
  then show "fst (train_prologue E epoch fixbase_epoch open_layers m) =
      map (\<lambda>name. (name, name \<in> set ol)) (map fst m)"
    by (simp add: train_prologue_fst assms open_specified_layers_spec_eq)
next
  assume "\<not> epoch + 1 \<le> fixbase_epoch \<or> open_layers = None"
  then have "\<not> (epoch + 1 \<le> fixbase_epoch \<and> open_layers \<noteq> None)"
    by blast
  then show "fst (train_prologue E epoch fixbase_epoch open_layers m) =
      map (\<lambda>name. (name, True)) (map fst m)"
    by (simp only: train_prologue_fst if_False assms open_all_layers_spec_eq)
qed


text \<open>
  The theorem for \<^verbatim>\<open>fixbase_epoch=2\<close> and \<^verbatim>\<open>open_layers=['classifier']\<close>: in epoch 1
  only the classifier is trainable, in epoch 2 every layer is.
\<close>

theorem train_prologue_layers_witness:
  "fst (train_prologue (test_env (\<lambda>i :: nat. Inr ([i], [i])) (\<lambda>c x p. 0)) 1 2
          (Some [''classifier'']) [(''conv1'', True), (''classifier'', False)]) =
     [(''conv1'', False), (''classifier'', True)] \<and>
   fst (train_prologue (test_env (\<lambda>i :: nat. Inr ([i], [i])) (\<lambda>c x p. 0)) 2 2
          (Some [''classifier'']) [(''conv1'', False), (''classifier'', True)]) =
     [(''conv1'', True), (''classifier'', True)]"
proof -
  let ?E = "test_env (\<lambda>i :: nat. Inr ([i :: nat], [i])) (\<lambda>c x p. 0)"
  have E: "open_specified_layers ?E = open_specified_layers_spec"
    "open_all_layers ?E = open_all_layers_spec"
    "map fst (model_train ?E m) = map fst m" for m
    by (simp_all add: test_env_def)
  from train_prologue_layers [OF E, of 1 2 "Some [''classifier'']" "[''classifier'']"
      "[(''conv1'', True), (''classifier'', False)]"]
    train_prologue_layers [OF E, of 2 2 "Some [''classifier'']" "[''classifier'']"
      "[(''conv1'', False), (''classifier'', True)]"]
  show ?thesis by simp
qed

text \<open>
  Claim C6 as stated fails: with \<^verbatim>\<open>open_layers=[]\<close>, an empty set of open layers, the
  claim makes all layers trainable; the source tests \<^verbatim>\<open>open_layers is not None\<close>, calls
  \<^verbatim>\<open>open_specified_layers(model, [])\<close> inside the window and so freezes every layer.
\<close>

theorem train_prologue_empty_open_layers:
  "train_prologue (test_env (\<lambda>i :: nat. Inr ([i :: nat], [i])) (\<lambda>c x p. 0)) 0 1 (Some [])
     [(''conv1'', True), (''classifier'', True)] =
   ([(''conv1'', False), (''classifier'', False)], [OnlyTrain [] 1 1])"
  by (simp add: train_prologue_def test_env_def open_specified_layers_spec_def)

section \<open>Reporting\<close>

lemma sorted_keys:
  "sorted (map snd (concat (map (\<lambda>b. map (\<lambda>tag. (tag, k + int b)) tags) [i..<j])))"
proof (induction j)
  case 0
  then show ?case by simp
next
  case (Suc j)
  show ?case
  proof (cases "i \<le> j")
    case True
    then have "[i..<Suc j] = [i..<j] @ [j]" by simp
    with Suc show ?thesis
      by (auto simp add: sorted_append comp_def map_replicate_const)
  next
    case False
    then show ?thesis by simp
  qed
qed

text \<open>
  Claim C7, as amended. In a call of \<^verbatim>\<open>train\<close> that returns, the six scalars are written
  to the writer (when one is given) for every batch, not only every \<open>print_freq\<close> batches,
  each keyed by \<open>epoch * num_batches + batch_idx\<close>, and the keys never decrease in the order
  written; the progress line is printed for the batches with
  \<open>(batch_idx + 1) mod print_freq = 0\<close>. Without a writer nothing is written.
\<close>

theorem train_writer_every_batch:
  assumes "train E self train_loader epoch max_epoch writer print_freq fixbase_epoch open_layers m =
             Inr (m', evs)"
  shows "written evs =
           (if writer
            then concat (map (\<lambda>batch_idx.
                   map (\<lambda>tag. (tag, epoch * int (length train_loader) + int batch_idx)) scalar_tags)
                   [0..<length train_loader])
            else []) \<and>
         progress_lines evs =
           map (\<lambda>batch_idx. (epoch + 1, max_epoch, int batch_idx + 1, int (length train_loader)))
             (filter (\<lambda>batch_idx. (int batch_idx + 1) mod print_freq = 0)
                [0..<length train_loader]) \<and>
         sorted (map snd (written evs))"
proof -
  note r = train_reporting [OF assms]
  have "sorted (map snd (written evs))"
    unfolding r(1) by (simp add: sorted_keys)
  with r show ?thesis by simp
qed

text \<open>
  The theorem on an epoch of two batches, \<^verbatim>\<open>epoch=3\<close>, \<^verbatim>\<open>print_freq=2\<close>: scalars at the
  iterations 6 and 7, one progress line after the second batch.
\<close>

theorem train_writer_every_batch_witness:
  "\<exists>evs. train (test_env (\<lambda>i :: nat. Inr ([i, i, i, i], [i, i, i, i])) (\<lambda>c x p. 1))
       (ImageTripletEngine_init 751 0.3 1 1 0 False False True)
       [(7, 5), (8, 6)] 3 60 True 2 0 None [(''conv1'', True)] = Inr ([(''conv1'', True)], evs) \<and>
     written evs =
       [(''Train/Time'', 6), (''Train/Data'', 6), (''Train/Loss_t'', 6), (''Train/Loss_x'', 6),
        (''Train/Acc'', 6), (''Train/Lr'', 6),
        (''Train/Time'', 7), (''Train/Data'', 7), (''Train/Loss_t'', 7), (''Train/Loss_x'', 7),
        (''Train/Acc'', 7), (''Train/Lr'', 7)] \<and>
     progress_lines evs = [(4, 60, 2, 2)]"
proof -
  let ?E = "test_env (\<lambda>i :: nat. Inr ([i, i, i, i], [i, i, i, i])) (\<lambda>c x p. 1)"
  obtain evs where run: "train ?E (ImageTripletEngine_init 751 0.3 1 1 0 False False True)
       [(7, 5), (8, 6)] 3 60 True 2 0 None [(''conv1'', True)] = Inr ([(''conv1'', True)], evs)"
    by (simp add: train_def train_prologue_def train_batch_def center_loss_def test_env_def
        open_all_layers_spec_def rbind_simps engine_init_fields Let_def)
  have up: "[0..<length [(7 :: nat, 5 :: nat), (8, 6)]] = [0, 1]"
    by (simp add: upt_rec)
  from train_writer_every_batch [OF run] have
    "written evs =
       [(''Train/Time'', 6), (''Train/Data'', 6), (''Train/Loss_t'', 6), (''Train/Loss_x'', 6),
        (''Train/Acc'', 6), (''Train/Lr'', 6),
        (''Train/Time'', 7), (''Train/Data'', 7), (''Train/Loss_t'', 7), (''Train/Loss_x'', 7),
        (''Train/Acc'', 7), (''Train/Lr'', 7)]"
    "progress_lines evs = [(4, 60, 2, 2)]"
    unfolding up by (simp_all add: scalar_tags_def)
  with run show ?thesis by blast
qed

text \<open>
  Claim C7 as stated fails: with \<^verbatim>\<open>print_freq=10\<close> and two batches no progress line is
  printed, yet the scalars of both batches are written.
\<close>

theorem train_writer_not_every_print_freq:
  "rbind (train (test_env (\<lambda>i :: nat. Inr ([i, i, i, i], [i, i, i, i])) (\<lambda>c x p. 1))
       (ImageTripletEngine_init 751 0.3 1 1 0 False False True)
       [(7, 5), (8, 6)] 3 60 True 10 0 None [(''conv1'', True)])
     (\<lambda>(m, evs). Inr (progress_lines evs, written evs)) =
   Inr ([],
     [(''Train/Time'', 6), (''Train/Data'', 6), (''Train/Loss_t'', 6), (''Train/Loss_x'', 6),
      (''Train/Acc'', 6), (''Train/Lr'', 6),
      (''Train/Time'', 7), (''Train/Data'', 7), (''Train/Loss_t'', 7), (''Train/Loss_x'', 7),
      (''Train/Acc'', 7), (''Train/Lr'', 7)])"
  by (simp add: train_def train_prologue_def train_batch_def center_loss_def test_env_def
      open_all_layers_spec_def rbind_simps engine_init_fields Let_def add_scalars_def)

section \<open>Features and logits in training mode\<close>

lemma length_OSNet_pooled: "length (OSNet_pooled T net x) = 4"
  by (simp add: OSNet_pooled_def split: prod.split)

lemma OSNet_logits_eq:
  "OSNet_logits T net x =
     [nn_call T ''classifier'' (OSNet_classifier net)
        (nn_call T ''bn'' (OSNet_bn net) (OSNet_pooled T net x ! 0)),
      nn_call T ''classifier_a'' (OSNet_classifier_a net)
        (nn_call T ''bn_a'' (OSNet_bn_a net) (OSNet_pooled T net x ! 1)),
      nn_call T ''classifier_b'' (OSNet_classifier_b net)
        (nn_call T ''bn_b'' (OSNet_bn_b net) (OSNet_pooled T net x ! 2)),
      nn_call T ''classifier_c'' (OSNet_classifier_c net)
        (nn_call T ''bn_c'' (OSNet_bn_c net) (OSNet_pooled T net x ! 3))]"
  by (simp add: OSNet_logits_def OSNet_normed_def OSNet_classifiers_def OSNet_heads_def
      OSNet_pooled_def split: prod.split)

lemma OSNet_call_triplet:
  assumes "OSNet_training net" "OSNet_loss net = ''triplet''"
  shows "OSNet_call T net x = Inr (OSNet_logits T net x, OSNet_pooled T net x)"
  using assms by (simp add: OSNet_call_def OSNet_forward_train rbind_simps)

text \<open>
  Claim C9. In training mode with loss mode \<^verbatim>\<open>triplet\<close>, \<^verbatim>\<open>OSNet.forward\<close> returns the
  four logits together with the four pooled vectors as they are before the per-head
  BatchNorm1d: each logit is the classifier applied to the batch-normalised vector of its
  head, while the returned features are the same under any two substrates that differ only
  in the four BatchNorm1d modules. An engine whose model is this network evaluates the
  triplet criterion on that list of pre-normalisation vectors, the cross-entropy criterion
  on the logits and, when the center weight is not 0, the four center criteria on the four
  pre-normalisation vectors one by one.
\<close>

theorem OSNet_triplet_features_before_bn:
  fixes E :: "('m, 'd, 't, 'p, 't) env" and n :: nat and margin w_t w_x w_c :: real
    and sch gpu ls :: bool
  assumes tr: "OSNet_training net" and loss: "OSNet_loss net = ''triplet''"
  shows "OSNet_forward T net x False =
           Inr (LogitsFeatures (OSNet_logits T net x) (OSNet_pooled T net x)) \<and>
         OSNet_logits T net x =
           [nn_call T ''classifier'' (OSNet_classifier net)
              (nn_call T ''bn'' (OSNet_bn net) (OSNet_pooled T net x ! 0)),
            nn_call T ''classifier_a'' (OSNet_classifier_a net)
              (nn_call T ''bn_a'' (OSNet_bn_a net) (OSNet_pooled T net x ! 1)),
            nn_call T ''classifier_b'' (OSNet_classifier_b net)
              (nn_call T ''bn_b'' (OSNet_bn_b net) (OSNet_pooled T net x ! 2)),
            nn_call T ''classifier_c'' (OSNet_classifier_c net)
              (nn_call T ''bn_c'' (OSNet_bn_c net) (OSNet_pooled T net x ! 3))] \<and>
         (same_off head_paths T T' \<longrightarrow> OSNet_pooled T' net x = OSNet_pooled T net x) \<and>
         (parse_data_for_train E data = (imgs0, pids0) \<and>
          x = (if gpu then cuda_imgs E imgs0 else imgs0) \<and>
          pids = (if gpu then cuda_pids E pids0 else pids0) \<and>
          model_call E m x = OSNet_call T net x \<and> print_freq \<noteq> 0 \<longrightarrow>
            (\<exists>m' evs.
               train_batch E (ImageTripletEngine_init n margin w_t w_x w_c sch gpu ls)
                 epoch max_epoch writer print_freq num_batches batch_idx data m = Inr (m', evs) \<and>
               loss_evals evs =
                 [(TripletLoss margin, Many (OSNet_pooled T net x)),
                  (CrossEntropyLoss n gpu ls, Many (OSNet_logits T net x))]
                 @ (if w_c \<noteq> 0 then
                      [(CenterLoss n 512, Single (OSNet_pooled T net x ! 0)),
                       (CenterLoss n 64, Single (OSNet_pooled T net x ! 1)),
                       (CenterLoss n 96, Single (OSNet_pooled T net x ! 2)),
                       (CenterLoss n 128, Single (OSNet_pooled T net x ! 3))]
                    else [])))"
proof (intro conjI impI)
  show "OSNet_forward T net x False =
      Inr (LogitsFeatures (OSNet_logits T net x) (OSNet_pooled T net x))"
    using tr loss by (simp add: OSNet_forward_train)
  show "OSNet_logits T net x =
           [nn_call T ''classifier'' (OSNet_classifier net)
              (nn_call T ''bn'' (OSNet_bn net) (OSNet_pooled T net x ! 0)),
            nn_call T ''classifier_a'' (OSNet_classifier_a net)
              (nn_call T ''bn_a'' (OSNet_bn_a net) (OSNet_pooled T net x ! 1)),
            nn_call T ''classifier_b'' (OSNet_classifier_b net)
              (nn_call T ''bn_b'' (OSNet_bn_b net) (OSNet_pooled T net x ! 2)),
            nn_call T ''classifier_c'' (OSNet_classifier_c net)
              (nn_call T ''bn_c'' (OSNet_bn_c net) (OSNet_pooled T net x ! 3))]"
    by (rule OSNet_logits_eq)
  show "OSNet_pooled T' net x = OSNet_pooled T net x" if "same_off head_paths T T'"
    using that by (rule same_off_pooled)
next
  assume a: "parse_data_for_train E data = (imgs0, pids0) \<and>
          x = (if gpu then cuda_imgs E imgs0 else imgs0) \<and>
          pids = (if gpu then cuda_pids E pids0 else pids0) \<and>
          model_call E m x = OSNet_call T net x \<and> print_freq \<noteq> 0"
  then have data: "parse_data_for_train E data = (imgs0, pids0)"
    and imgs: "x = (if gpu then cuda_imgs E imgs0 else imgs0)"
    and pids: "pids = (if gpu then cuda_pids E pids0 else pids0)"
    and freq: "print_freq \<noteq> 0"
    by blast+
  from a have "model_call E m x = OSNet_call T net x"
    by blast
  then have call: "model_call E m x = Inr (OSNet_logits T net x, OSNet_pooled T net x)"
    by (simp only: OSNet_call_triplet [OF tr loss])
  have len: "w_c \<noteq> 0 \<longrightarrow> 4 \<le> length (OSNet_pooled T net x)"
    by (simp add: length_OSNet_pooled)
  note b = train_batch_init [OF data imgs pids call len freq,
      of n margin w_t w_x sch ls epoch max_epoch writer num_batches batch_idx]
  show "\<exists>m' evs.
               train_batch E (ImageTripletEngine_init n margin w_t w_x w_c sch gpu ls)
                 epoch max_epoch writer print_freq num_batches batch_idx data m = Inr (m', evs) \<and>
               loss_evals evs =
                 [(TripletLoss margin, Many (OSNet_pooled T net x)),
                  (CrossEntropyLoss n gpu ls, Many (OSNet_logits T net x))]
                 @ (if w_c \<noteq> 0 then
                      [(CenterLoss n 512, Single (OSNet_pooled T net x ! 0)),
                       (CenterLoss n 64, Single (OSNet_pooled T net x ! 1)),
                       (CenterLoss n 96, Single (OSNet_pooled T net x ! 2)),
                       (CenterLoss n 128, Single (OSNet_pooled T net x ! 3))]
                    else [])"
    by (subst b, intro exI conjI, rule refl) simp
qed


text \<open>
  The theorem at \<^verbatim>\<open>pfh_osnet(num_classes=751, loss='triplet')\<close>, against a substrate whose
  four BatchNorm1d heads are the identity, and on one batch of an engine with center weight
  1/100.
\<close>

theorem OSNet_triplet_features_before_bn_witness:
  "\<exists>net. pfh_osnet 751 False ''triplet'' 512 False = Inr net \<and>
     OSNet_forward sym_torch net (Input ''imgs'') False =
       Inr (LogitsFeatures (OSNet_logits sym_torch net (Input ''imgs''))
              (OSNet_pooled sym_torch net (Input ''imgs''))) \<and>
     OSNet_logits sym_torch net (Input ''imgs'') ! 0 =
       Call ''classifier'' (Linear 512 751)
         (Call ''bn'' (BatchNorm1d 512) (OSNet_pooled sym_torch net (Input ''imgs'') ! 0)) \<and>
     OSNet_pooled
       (sym_torch\<lparr>nn_call := \<lambda>name l t. if name \<in> head_paths then t else Call name l t\<rparr>)
       net (Input ''imgs'') =
     OSNet_pooled sym_torch net (Input ''imgs'') \<and>
     (\<exists>m' evs.
        train_batch (test_env (OSNet_call sym_torch net) (\<lambda>c x p. 1))
          (ImageTripletEngine_init 751 0.3 1 1 (1 / 100) False False True)
          0 60 False 10 1 0 (Input ''imgs'', 5) [] = Inr (m', evs) \<and>
        loss_evals evs =
          [(TripletLoss 0.3, Many (OSNet_pooled sym_torch net (Input ''imgs''))),
           (CrossEntropyLoss 751 False True, Many (OSNet_logits sym_torch net (Input ''imgs''))),
           (CenterLoss 751 512, Single (OSNet_pooled sym_torch net (Input ''imgs'') ! 0)),
           (CenterLoss 751 64, Single (OSNet_pooled sym_torch net (Input ''imgs'') ! 1)),
           (CenterLoss 751 96, Single (OSNet_pooled sym_torch net (Input ''imgs'') ! 2)),
           (CenterLoss 751 128, Single (OSNet_pooled sym_torch net (Input ''imgs'') ! 3))])"
proof -
  let ?T' = "sym_torch\<lparr>nn_call := \<lambda>name l t. if name \<in> head_paths then t else Call name l t\<rparr>"
  let ?x = "Input ''imgs''"
  obtain net where net: "pfh_osnet 751 False ''triplet'' 512 False = Inr net"
    using pfh_osnet_Inr by blast
  note h = OSNet_init_heads [OF net [unfolded pfh_osnet_def]]
  let ?E = "test_env (OSNet_call sym_torch net) (\<lambda>c x p. 1 :: real)"
  note inst = OSNet_triplet_features_before_bn [OF h(11) h(10),
      of sym_torch ?x ?T' ?E "(?x, 5)" ?x 5 False 5 "[]" 10 751 "0.3" 1 1 "1 / 100" False True
        0 60 False 1 0]
  have so: "same_off head_paths sym_torch ?T'"
    by (simp add: same_off_def sym_torch_def)
  have hyp: "parse_data_for_train ?E (?x, 5) = (?x, 5) \<and>
          ?x = (if False then cuda_imgs ?E ?x else ?x) \<and>
          5 = (if False then cuda_pids ?E 5 else 5) \<and>
          model_call ?E [] ?x = OSNet_call sym_torch net ?x \<and> (10 :: int) \<noteq> 0"
    by (simp add: test_env_def)
  have l0: "OSNet_logits sym_torch net ?x ! 0 =
       Call ''classifier'' (Linear 512 751)
         (Call ''bn'' (BatchNorm1d 512) (OSNet_pooled sym_torch net ?x ! 0))"
    using inst [THEN conjunct2, THEN conjunct1] by (simp add: h sym_torch_def)
  have ev: "\<exists>m' evs.
        train_batch ?E (ImageTripletEngine_init 751 0.3 1 1 (1 / 100) False False True)
          0 60 False 10 1 0 (?x, 5) [] = Inr (m', evs) \<and>
        loss_evals evs =
          [(TripletLoss 0.3, Many (OSNet_pooled sym_torch net ?x)),
           (CrossEntropyLoss 751 False True, Many (OSNet_logits sym_torch net ?x)),
           (CenterLoss 751 512, Single (OSNet_pooled sym_torch net ?x ! 0)),
           (CenterLoss 751 64, Single (OSNet_pooled sym_torch net ?x ! 1)),
           (CenterLoss 751 96, Single (OSNet_pooled sym_torch net ?x ! 2)),
           (CenterLoss 751 128, Single (OSNet_pooled sym_torch net ?x ! 3))]"
    using inst [THEN conjunct2, THEN conjunct2, THEN conjunct2, rule_format, OF hyp] by simp
  show ?thesis
  proof (intro exI [of _ net] conjI)
    show "OSNet_forward sym_torch net ?x False =
       Inr (LogitsFeatures (OSNet_logits sym_torch net ?x) (OSNet_pooled sym_torch net ?x))"
      using inst by (rule conjunct1)
    show "OSNet_pooled ?T' net ?x = OSNet_pooled sym_torch net ?x"
      using inst [THEN conjunct2, THEN conjunct2, THEN conjunct1, rule_format, OF so] .
  qed (rule net l0 ev)+
qed


end
